theory Spec2Isabelle
  imports Complex_Main
begin

section \<open>The remote API as seen by the sync engine\<close>

text \<open>
  Every \<^verbatim>\<open>api.get\<close> of \<^verbatim>\<open>src/index.ts\<close> either rejects (network error, non-2xx
  status, a body that is not JSON) or yields a JSON array together with the response
  headers. The only header the loops read for their decisions is \<^verbatim>\<open>x-total-pages\<close>.
  Its value is kept as \<open>int option\<close>: \<open>None\<close> stands for a header that is absent or does
  not parse as a number (\<^verbatim>\<open>Number\<close> gives \<^verbatim>\<open>NaN\<close>, and every comparison with \<^verbatim>\<open>NaN\<close> is
  false); header values are taken to be integers.
\<close>

datatype error = HTTPError | StoreError

datatype 'a response = RequestFailed | Response "'a list" "int option"

subsection \<open>fetchMergeRequests (index.ts, lines 59-111)\<close>

text \<open>
  The \<^verbatim>\<open>while (hasMorePages)\<close> loop with its three variables. A rejected request leaves
  the loop as \<open>Inl HTTPError\<close>; a server that keeps answering with full pages keeps the
  loop running for ever, which is the value \<open>None\<close>.
\<close>

partial_function (option) fetchMergeRequests_loop ::
  "(nat \<Rightarrow> 'a response) \<Rightarrow> 'a list \<Rightarrow> nat \<Rightarrow> bool \<Rightarrow> (error + 'a list) option"
where
  "fetchMergeRequests_loop api allMergeRequests page hasMorePages =
     (if \<not> hasMorePages then Some (Inr allMergeRequests)
      else case api page of
        RequestFailed \<Rightarrow> Some (Inl HTTPError)
      | Response mergeRequests hdr \<Rightarrow>
          if length mergeRequests = 0
          then fetchMergeRequests_loop api allMergeRequests page False
          else
            let totalPages = (case hdr of None \<Rightarrow> 0 | Some n \<Rightarrow> n)
            in fetchMergeRequests_loop api (allMergeRequests @ mergeRequests) (page + 1)
                 ((totalPages > 0 \<and> int page < totalPages) \<or> length mergeRequests = 100))"

text \<open>
  The body of the function is one \<^verbatim>\<open>try\<close> block whose \<^verbatim>\<open>catch\<close> returns \<^verbatim>\<open>[]\<close>: the
  accumulator is local to the \<^verbatim>\<open>try\<close> and is not visible in the handler.
\<close>

definition fetchMergeRequests :: "(nat \<Rightarrow> 'a response) \<Rightarrow> 'a list option" where
  "fetchMergeRequests api =
     (case fetchMergeRequests_loop api [] 1 True of
        None \<Rightarrow> None
      | Some (Inl err) \<Rightarrow> Some []
      | Some (Inr allMergeRequests) \<Rightarrow> Some allMergeRequests)"

subsection \<open>fetchMergeRequestDetails (index.ts, lines 114-156)\<close>

record ('n, 'e) details =
  notes_of :: "'n list"
  approvalEvents :: "'e list"

text \<open>
  The notes loop reads the header as \<^verbatim>\<open>Number(h) || 1\<close>: an absent header, \<^verbatim>\<open>NaN\<close> and
  \<^verbatim>\<open>0\<close> all become \<^verbatim>\<open>1\<close>. It never looks at the length of the page.
\<close>

partial_function (option) fetchMergeRequestDetails_loop ::
  "(nat \<Rightarrow> 'n response) \<Rightarrow> 'n list \<Rightarrow> nat \<Rightarrow> bool \<Rightarrow> (error + 'n list) option"
where
  "fetchMergeRequestDetails_loop api allNotes page hasMorePages =
     (if \<not> hasMorePages then Some (Inr allNotes)
      else case api page of
        RequestFailed \<Rightarrow> Some (Inl HTTPError)
      | Response pageNotes hdr \<Rightarrow>
          let totalPages = (case hdr of None \<Rightarrow> 1 | Some n \<Rightarrow> if n = 0 then 1 else n)
          in fetchMergeRequestDetails_loop api (allNotes @ pageNotes) (page + 1)
               (int page < totalPages))"

text \<open>
  The approval events are one request whose rejection is absorbed by \<^verbatim>\<open>.catch(() => [])\<close>
  (\<open>None\<close> is the rejected request). A rejected notes request reaches the outer \<^verbatim>\<open>catch\<close>,
  which returns empty notes and empty approval events.
\<close>

definition fetchMergeRequestDetails ::
  "(nat \<Rightarrow> 'n response) \<Rightarrow> 'e list option \<Rightarrow> ('n, 'e) details option" where
  "fetchMergeRequestDetails notesApi approvalsApi =
     (case fetchMergeRequestDetails_loop notesApi [] 1 True of
        None \<Rightarrow> None
      | Some (Inl err) \<Rightarrow> Some \<lparr>notes_of = [], approvalEvents = []\<rparr>
      | Some (Inr allNotes) \<Rightarrow>
          Some \<lparr>notes_of = allNotes,
                approvalEvents = (case approvalsApi of None \<Rightarrow> [] | Some evs \<Rightarrow> evs)\<rparr>)"

subsection \<open>Servers that page a collection\<close>

text \<open>
  A well-behaved source holding the collection \<open>xs\<close> answers page \<open>p\<close> (counted from 1)
  with the \<open>p\<close>-th block of \<open>per_page\<close> items; \<open>hdr p\<close> is whatever it puts into
  \<^verbatim>\<open>x-total-pages\<close> on that page, right or wrong.
\<close>

definition paged :: "nat \<Rightarrow> 'a list \<Rightarrow> (nat \<Rightarrow> int option) \<Rightarrow> nat \<Rightarrow> 'a response" where
  "paged per_page xs hdr p = Response (take per_page (drop (per_page * (p - 1)) xs)) (hdr p)"

text \<open>
  Whether the merge-request loop asks for another page after page \<open>p\<close>: the page is not
  empty and one of the two signals says so.
\<close>

definition continues :: "(nat \<Rightarrow> 'a response) \<Rightarrow> nat \<Rightarrow> bool" where
  "continues api p =
     (case api p of
        RequestFailed \<Rightarrow> False
      | Response items hdr \<Rightarrow>
          items \<noteq> [] \<and>
          (((case hdr of None \<Rightarrow> 0 | Some n \<Rightarrow> n) > 0 \<and> int p < (case hdr of None \<Rightarrow> 0 | Some n \<Rightarrow> n))
           \<or> length items = 100))"


subsection \<open>The Pagination Walker of the specification\<close>

text \<open>
  The policy of section 4.1 of the specification, written down from its words so that the
  two loops above can be compared with it (the program itself has no walker of its own
  beside them). An empty page ends the walk; otherwise the walk goes on while the source
  declares a total-page count greater than the current page index, or the page just
  fetched was full; a failed request yields what was accumulated.
\<close>

partial_function (option) pagination_walker ::
  "nat \<Rightarrow> (nat \<Rightarrow> 'a response) \<Rightarrow> 'a list \<Rightarrow> nat \<Rightarrow> 'a list option"
where
  "pagination_walker pageSize api acc page =
     (case api page of
        RequestFailed \<Rightarrow> Some acc
      | Response items hdr \<Rightarrow>
          if items = [] then Some acc
          else if (case hdr of None \<Rightarrow> False | Some n \<Rightarrow> int page < n) \<or> length items = pageSize
          then pagination_walker pageSize api (acc @ items) (page + 1)
          else Some (acc @ items))"

section \<open>Records of the remote API and of the store\<close>

text \<open>
  The fields of a merge request, of a note and of an approval event that the program
  reads from the JSON of the remote API. The JSON is taken to be well formed: \<^verbatim>\<open>mr.author\<close>
  is present, ids are numbers, timestamps are strings, \<^verbatim>\<open>merged_at\<close> is a string or
  \<^verbatim>\<open>null\<close>.
\<close>

record remote_mr =
  mr_id :: nat
  mr_iid :: nat
  mr_title :: string
  mr_created_at :: string
  mr_updated_at :: string
  mr_state :: string
  mr_author_id :: nat
  mr_author_username :: string
  mr_merged_at :: "string option"

record mr_note =
  note_created_at :: string
  note_system :: bool

record approval_event =
  event_created_at :: string

text \<open>
  A row of the table \<^verbatim>\<open>merge_requests\<close> (interface \<^verbatim>\<open>MergeRequestData\<close>, database.ts);
  \<open>None\<close> is SQL \<^verbatim>\<open>NULL\<close>, which is also what the driver binds for a property that is
  \<^verbatim>\<open>undefined\<close>. The primary key is the pair of \<open>id'\<close> and \<open>project_id\<close>.
\<close>

record MergeRequestData =
  id' :: nat
  project_id :: nat
  title :: string
  description :: "string option"
  created_at :: string
  updated_at :: string
  state :: string
  author_id :: nat
  author_username :: string
  first_comment_at :: "string option"
  approved_at :: "string option"
  merged_at :: "string option"
  squad :: "string option"

record project =
  p_id :: nat
  p_name :: string
  p_path_with_namespace :: string
  p_created_at :: string

section \<open>The environment and the state of a run\<close>

text \<open>
  Everything outside the program that a run depends on: the answers of the remote API
  (by project, merge request and page), the statements of the database that fail
  (\<open>db_fails n\<close>: the \<open>n\<close>-th statement issued is rejected), and the two date parsers
  the program relies on, \<^verbatim>\<open>new Date(s).getTime()\<close> of JavaScript (milliseconds, \<open>None\<close>
  for \<^verbatim>\<open>NaN\<close>) and \<^verbatim>\<open>strftime('%s', s)\<close> of SQLite (seconds, \<open>None\<close> for \<^verbatim>\<open>NULL\<close>).
\<close>

record env =
  mr_api :: "nat \<Rightarrow> nat \<Rightarrow> remote_mr response"
  notes_api :: "nat \<Rightarrow> nat \<Rightarrow> nat \<Rightarrow> mr_note response"
  approvals_api :: "nat \<Rightarrow> nat \<Rightarrow> approval_event list option"
  db_fails :: "nat \<Rightarrow> bool"
  getTime :: "string \<Rightarrow> int option"
  strftime_s :: "string \<Rightarrow> int option"

text \<open>
  The state a run changes: the two tables, the number of statements issued so far, the
  calls of \<^verbatim>\<open>fetchMergeRequestDetails\<close> made so far (project id and iid, oldest first), and
  the three counters of \<^verbatim>\<open>processAndStoreMergeRequests\<close>.
\<close>

record world =
  merge_requests :: "MergeRequestData list"
  projects :: "project list"
  ops :: nat
  detail_calls :: "(nat \<times> nat) list"
  skippedCount :: nat
  updatedCount :: nat
  newCount :: nat

datatype outcome = Returned world | Thrown error world

section \<open>database.ts\<close>

text \<open>
  \<^verbatim>\<open>INSERT OR REPLACE\<close> deletes the row that holds the same primary key and inserts the
  new one. A rejected statement changes no table and is rethrown by \<^verbatim>\<open>await\<close>.
\<close>

definition saveProject :: "env \<Rightarrow> world \<Rightarrow> project \<Rightarrow> outcome" where
  "saveProject e w p =
     (if db_fails e (ops w) then Thrown StoreError (w\<lparr>ops := ops w + 1\<rparr>)
      else Returned (w\<lparr>ops := ops w + 1,
                       projects := filter (\<lambda>q. p_id q \<noteq> p_id p) (projects w) @ [p]\<rparr>))"

definition saveMergeRequest :: "env \<Rightarrow> world \<Rightarrow> MergeRequestData \<Rightarrow> outcome" where
  "saveMergeRequest e w mr =
     (if db_fails e (ops w) then Thrown StoreError (w\<lparr>ops := ops w + 1\<rparr>)
      else Returned (w\<lparr>ops := ops w + 1,
                       merge_requests :=
                         filter (\<lambda>r. \<not> (id' r = id' mr \<and> project_id r = project_id mr))
                           (merge_requests w) @ [mr]\<rparr>))"

text \<open>The \<^verbatim>\<open>catch\<close> of \<^verbatim>\<open>getMergeRequest\<close> turns a rejected \<^verbatim>\<open>SELECT\<close> into \<^verbatim>\<open>null\<close>.\<close>

definition getMergeRequest ::
  "env \<Rightarrow> world \<Rightarrow> nat \<Rightarrow> nat \<Rightarrow> MergeRequestData option \<times> world" where
  "getMergeRequest e w projectId mrId =
     (if db_fails e (ops w) then (None, w\<lparr>ops := ops w + 1\<rparr>)
      else (find (\<lambda>r. project_id r = projectId \<and> id' r = mrId) (merge_requests w),
            w\<lparr>ops := ops w + 1\<rparr>))"

section \<open>processAndStoreMergeRequests (index.ts, lines 159-258)\<close>

text \<open>
  \<^verbatim>\<open>Array.prototype.sort\<close> with a comparator is stable. It is modelled as the stable
  insertion sort; for a consistent comparator every stable sort gives the same array. A
  comparator result of \<^verbatim>\<open>NaN\<close> counts as \<^verbatim>\<open>0\<close>, as the language prescribes.
\<close>

fun sort_insert :: "('a \<Rightarrow> 'a \<Rightarrow> int) \<Rightarrow> 'a \<Rightarrow> 'a list \<Rightarrow> 'a list" where
  "sort_insert cmp x [] = [x]"
| "sort_insert cmp x (y # ys) =
     (if cmp x y \<le> 0 then x # y # ys else y # sort_insert cmp x ys)"

fun Array_sort :: "('a \<Rightarrow> 'a \<Rightarrow> int) \<Rightarrow> 'a list \<Rightarrow> 'a list" where
  "Array_sort cmp [] = []"
| "Array_sort cmp (x # xs) = sort_insert cmp x (Array_sort cmp xs)"

text \<open>The comparator of both sorts: the difference of the two parsed dates.\<close>

definition by_time :: "env \<Rightarrow> string \<Rightarrow> string \<Rightarrow> int" where
  "by_time e a b =
     (case getTime e a of
        None \<Rightarrow> 0
      | Some ta \<Rightarrow> (case getTime e b of None \<Rightarrow> 0 | Some tb \<Rightarrow> ta - tb))"

text \<open>Lines 212-223: the value of the local variable \<^verbatim>\<open>firstComment\<close>.\<close>

definition firstComment :: "env \<Rightarrow> mr_note list \<Rightarrow> string option" where
  "firstComment e ns =
     (if length ns > 0 then
        (let userNotes = filter (\<lambda>note. \<not> note_system note) ns in
         if length userNotes > 0 then
           (case Array_sort (\<lambda>a b. by_time e (note_created_at a) (note_created_at b)) userNotes of
              [] \<Rightarrow> None
            | first # _ \<Rightarrow> Some (note_created_at first))
         else None)
      else None)"

text \<open>Lines 225-236: the value of the local variable \<^verbatim>\<open>approvedAt\<close>.\<close>

definition approvedAt :: "env \<Rightarrow> approval_event list \<Rightarrow> string option" where
  "approvedAt e evs =
     (if length evs > 0 then
        (case Array_sort (\<lambda>a b. by_time e (event_created_at a) (event_created_at b)) evs of
           [] \<Rightarrow> None
         | first # _ \<Rightarrow> Some (event_created_at first))
      else None)"

text \<open>
  Lines 239-251: the object handed to \<^verbatim>\<open>saveMergeRequest\<close>. It has no \<^verbatim>\<open>squad\<close> and no
  \<^verbatim>\<open>description\<close> property, so both columns are bound to \<^verbatim>\<open>NULL\<close>.
\<close>

definition mrData :: "nat \<Rightarrow> remote_mr \<Rightarrow> string option \<Rightarrow> string option \<Rightarrow> MergeRequestData" where
  "mrData projectId mr fc ap =
     \<lparr>id' = mr_id mr, project_id = projectId, title = mr_title mr, description = None,
      created_at = mr_created_at mr, updated_at = mr_updated_at mr, state = mr_state mr,
      author_id = mr_author_id mr, author_username = mr_author_username mr,
      first_comment_at = fc, approved_at = ap, merged_at = mr_merged_at mr, squad = None\<rparr>"

text \<open>
  One turn of the \<^verbatim>\<open>for\<close> loop (lines 176-254). \<open>None\<close>: the notes loop of the detail
  fetch never ends. \<open>Thrown\<close>: \<^verbatim>\<open>saveMergeRequest\<close> rejected; nothing in the loop catches
  it.
\<close>

definition loop_body :: "env \<Rightarrow> nat \<Rightarrow> world \<Rightarrow> remote_mr \<Rightarrow> outcome option" where
  "loop_body e projectId w mr =
     (let (existingMR, w1) = getMergeRequest e w projectId (mr_id mr) in
      if existingMR \<noteq> None \<and> mr_state mr = ''merged''
           \<and> map_option state existingMR = Some ''merged''
      then Some (Returned (w1\<lparr>skippedCount := skippedCount w1 + 1\<rparr>))
      else
        let needsUpdate =
              (case existingMR of
                 None \<Rightarrow> False
               | Some ex \<Rightarrow> updated_at ex \<noteq> mr_updated_at mr \<or> state ex \<noteq> mr_state mr)
        in
        if existingMR \<noteq> None \<and> \<not> needsUpdate
        then Some (Returned (w1\<lparr>skippedCount := skippedCount w1 + 1\<rparr>))
        else
          let w2 = (if existingMR \<noteq> None then w1\<lparr>updatedCount := updatedCount w1 + 1\<rparr>
                    else w1\<lparr>newCount := newCount w1 + 1\<rparr>);
              w3 = w2\<lparr>detail_calls := detail_calls w2 @ [(projectId, mr_iid mr)]\<rparr>
          in
          case fetchMergeRequestDetails (notes_api e projectId (mr_iid mr))
                 (approvals_api e projectId (mr_iid mr)) of
            None \<Rightarrow> None
          | Some det \<Rightarrow>
              Some (saveMergeRequest e w3
                      (mrData projectId mr (firstComment e (notes_of det))
                         (approvedAt e (approvalEvents det)))))"

fun for_loop :: "env \<Rightarrow> nat \<Rightarrow> world \<Rightarrow> remote_mr list \<Rightarrow> outcome option" where
  "for_loop e projectId w [] = Some (Returned w)"
| "for_loop e projectId w (mr # rest) =
     (case loop_body e projectId w mr of
        None \<Rightarrow> None
      | Some (Thrown err w') \<Rightarrow> Some (Thrown err w')
      | Some (Returned w') \<Rightarrow> for_loop e projectId w' rest)"

definition processAndStoreMergeRequests ::
  "env \<Rightarrow> nat \<Rightarrow> project \<Rightarrow> world \<Rightarrow> outcome option" where
  "processAndStoreMergeRequests e projectId proj w =
     (case fetchMergeRequests (mr_api e projectId) of
        None \<Rightarrow> None
      | Some mergeRequests \<Rightarrow>
          if length mergeRequests = 0 then Some (Returned w)
          else
            (case saveProject e w proj of
               Thrown err w' \<Rightarrow> Some (Thrown err w')
             | Returned w' \<Rightarrow>
                 for_loop e projectId
                   (w'\<lparr>skippedCount := 0, updatedCount := 0, newCount := 0\<rparr>) mergeRequests))"

section \<open>The two aggregation queries (database.ts, lines 610-700)\<close>

text \<open>
  \<^verbatim>\<open>created_at\<close> and the bound parameter are both \<^verbatim>\<open>TEXT\<close>, so \<^verbatim>\<open>created_at >= ?\<close> and
  \<^verbatim>\<open>created_at <= ?\<close> compare byte strings under the \<^verbatim>\<open>BINARY\<close> collation: byte by byte,
  and a proper prefix sorts before the longer string. \<open>text_le a b\<close> is \<^verbatim>\<open>a <= b\<close>.
\<close>

fun text_le :: "string \<Rightarrow> string \<Rightarrow> bool" where
  "text_le [] b = True"
| "text_le (x # a) [] = False"
| "text_le (x # a) (y # b) =
     (if x = y then text_le a b else (of_char x :: nat) < of_char y)"

text \<open>
  \<^verbatim>\<open>if (startDate)\<close>, \<^verbatim>\<open>if (endDate)\<close>: a bound that is \<^verbatim>\<open>undefined\<close> or the empty string adds
  no condition.
\<close>

definition date_filter :: "string option \<Rightarrow> string option \<Rightarrow> MergeRequestData \<Rightarrow> bool" where
  "date_filter startDate endDate r =
     ((case startDate of
         None \<Rightarrow> True
       | Some s \<Rightarrow> if s = [] then True else text_le s (created_at r))
      \<and> (case endDate of
           None \<Rightarrow> True
         | Some d \<Rightarrow> if d = [] then True else text_le (created_at r) d))"

text \<open>
  \<^verbatim>\<open>(strftime('%s', t1) - strftime('%s', t0)) / 60.0\<close>: whole seconds, divided into
  fractional minutes; \<^verbatim>\<open>NULL\<close> when either date does not parse. The quotient is kept as
  an exact real number where SQLite computes an IEEE double.
\<close>

definition minutes_between :: "env \<Rightarrow> string \<Rightarrow> string \<Rightarrow> real option" where
  "minutes_between e t0 t1 =
     (case strftime_s e t1 of
        None \<Rightarrow> None
      | Some s1 \<Rightarrow>
          (case strftime_s e t0 of
             None \<Rightarrow> None
           | Some s0 \<Rightarrow> Some (real_of_int (s1 - s0) / 60)))"

text \<open>\<^verbatim>\<open>CASE WHEN x IS NOT NULL THEN (strftime('%s', x) - strftime('%s', created_at)) / 60.0 ELSE NULL END\<close>\<close>

definition delta_minutes :: "env \<Rightarrow> MergeRequestData \<Rightarrow> string option \<Rightarrow> real option" where
  "delta_minutes e r x =
     (case x of None \<Rightarrow> None | Some t \<Rightarrow> minutes_between e (created_at r) t)"

text \<open>
  The aggregate \<^verbatim>\<open>AVG\<close>: a running total and a running count, both stepped only by a value
  that is not \<^verbatim>\<open>NULL\<close>; the result is \<^verbatim>\<open>NULL\<close> when the count is zero.
\<close>

fun avg_step :: "real \<times> nat \<Rightarrow> real option \<Rightarrow> real \<times> nat" where
  "avg_step (rSum, cnt) None = (rSum, cnt)"
| "avg_step (rSum, cnt) (Some x) = (rSum + x, cnt + 1)"

definition AVG :: "real option list \<Rightarrow> real option" where
  "AVG xs =
     (case foldl avg_step (0, 0) xs of
        (rSum, cnt) \<Rightarrow> if cnt = 0 then None else Some (rSum / real cnt))"

record stats_row =
  row_squad :: string
  total_mrs :: nat
  merged_mrs :: nat
  avg_time_to_first_comment :: "real option"
  avg_time_to_approval :: "real option"
  avg_time_to_merge :: "real option"

text \<open>
  The rows the \<^verbatim>\<open>WHERE\<close> clause of \<^verbatim>\<open>getMergeRequestStats\<close> keeps, and one result row for
  each squad among them. SQL fixes no order of the groups; the model lists them in the
  order \<open>remdups\<close> leaves.
\<close>

definition stats_where ::
  "nat \<Rightarrow> string option \<Rightarrow> string option \<Rightarrow> MergeRequestData \<Rightarrow> bool" where
  "stats_where projectId startDate endDate r =
     (project_id r = projectId \<and> state r \<noteq> ''closed'' \<and> squad r \<noteq> None
      \<and> date_filter startDate endDate r)"

definition stats_group :: "env \<Rightarrow> MergeRequestData list \<Rightarrow> string \<Rightarrow> stats_row" where
  "stats_group e sel g =
     (let grp = filter (\<lambda>r. squad r = Some g) sel in
      \<lparr>row_squad = g,
       total_mrs = length grp,
       merged_mrs = sum_list (map (\<lambda>r. if state r = ''merged'' then 1 else 0) grp),
       avg_time_to_first_comment = AVG (map (\<lambda>r. delta_minutes e r (first_comment_at r)) grp),
       avg_time_to_approval = AVG (map (\<lambda>r. delta_minutes e r (approved_at r)) grp),
       avg_time_to_merge = AVG (map (\<lambda>r. delta_minutes e r (merged_at r)) grp)\<rparr>)"

definition getMergeRequestStats ::
  "env \<Rightarrow> world \<Rightarrow> nat \<Rightarrow> string option \<Rightarrow> string option \<Rightarrow> error + stats_row list" where
  "getMergeRequestStats e w projectId startDate endDate =
     (if db_fails e (ops w) then Inl StoreError
      else
        let sel = filter (stats_where projectId startDate endDate) (merge_requests w)
        in Inr (map (stats_group e sel) (remdups (List.map_filter squad sel))))"

record late_row =
  late_squad :: string
  late_count :: nat

text \<open>
  \<^verbatim>\<open>countMrsWithLateFirstComment\<close>: the same filters, a first comment that is not \<^verbatim>\<open>NULL\<close>,
  and a delay strictly above the threshold (a \<^verbatim>\<open>NULL\<close> delay satisfies no comparison).
\<close>

definition late_where ::
  "env \<Rightarrow> nat \<Rightarrow> real \<Rightarrow> string option \<Rightarrow> string option \<Rightarrow> MergeRequestData \<Rightarrow> bool" where
  "late_where e projectId thresholdMinutes startDate endDate r =
     (project_id r = projectId \<and> state r \<noteq> ''closed'' \<and> first_comment_at r \<noteq> None
      \<and> squad r \<noteq> None \<and> date_filter startDate endDate r
      \<and> (case delta_minutes e r (first_comment_at r) of
            None \<Rightarrow> False
          | Some d \<Rightarrow> d > thresholdMinutes))"

definition countMrsWithLateFirstComment ::
  "env \<Rightarrow> world \<Rightarrow> nat \<Rightarrow> real \<Rightarrow> string option \<Rightarrow> string option \<Rightarrow> error + late_row list" where
  "countMrsWithLateFirstComment e w projectId thresholdMinutes startDate endDate =
     (if db_fails e (ops w) then Inl StoreError
      else
        let sel = filter (late_where e projectId thresholdMinutes startDate endDate)
                    (merge_requests w)
        in Inr (map (\<lambda>g. \<lparr>late_squad = g,
                             late_count = length (filter (\<lambda>r. squad r = Some g) sel)\<rparr>)
                  (remdups (List.map_filter squad sel))))"

section \<open>Vocabulary of the statements\<close>

text \<open>
  The two tests by which the loop leaves a merge request alone (lines 181 and 194), as a
  condition on the table: a row with the key exists, and either both sides are
  \<^verbatim>\<open>merged\<close>, or \<^verbatim>\<open>updated_at\<close> and \<^verbatim>\<open>state\<close> agree.
\<close>

definition skips :: "nat \<Rightarrow> MergeRequestData list \<Rightarrow> remote_mr \<Rightarrow> bool" where
  "skips projectId table mr =
     (case find (\<lambda>r. project_id r = projectId \<and> id' r = mr_id mr) table of
        None \<Rightarrow> False
      | Some ex \<Rightarrow>
          (mr_state mr = ''merged'' \<and> state ex = ''merged'')
          \<or> (updated_at ex = mr_updated_at mr \<and> state ex = mr_state mr))"

text \<open>The state in which a call ended, when it returned and when it threw.\<close>

definition returned :: "outcome option \<Rightarrow> world option" where
  "returned r = (case r of Some (Returned w) \<Rightarrow> Some w | _ \<Rightarrow> None)"

definition thrown :: "outcome option \<Rightarrow> world option" where
  "thrown r = (case r of Some (Thrown err w) \<Rightarrow> Some w | _ \<Rightarrow> None)"

text \<open>
  The mean the specification asks of each average: over the rows of a group whose column
  \<open>col\<close> is not null, the mean of the distance in seconds from \<^verbatim>\<open>created_at\<close> to that
  column, divided by 60.
\<close>

definition mean_minutes ::
  "env \<Rightarrow> (MergeRequestData \<Rightarrow> string option) \<Rightarrow> MergeRequestData list \<Rightarrow> real option" where
  "mean_minutes e col grp =
     (let having = filter (\<lambda>r. col r \<noteq> None) grp in
      if having = [] then None
      else Some (sum_list (map (\<lambda>r. real_of_int (the (strftime_s e (the (col r)))
                                         - the (strftime_s e (created_at r))) / 60) having)
                 / real (length having)))"

section \<open>Concrete inputs\<close>

text \<open>
  A small remote project and a small table, on which the statements below are run. The
  timestamps are those of one morning; the two parsers are given by their values on
  them (milliseconds for JavaScript, seconds for SQLite).
\<close>

abbreviation (input) t_10_00 :: string where "t_10_00 \<equiv> ''2025-04-30T10:00:00.000Z''"
abbreviation (input) t_10_01 :: string where "t_10_01 \<equiv> ''2025-04-30T10:01:00.000Z''"
abbreviation (input) t_10_05 :: string where "t_10_05 \<equiv> ''2025-04-30T10:05:00.000Z''"
abbreviation (input) t_10_10 :: string where "t_10_10 \<equiv> ''2025-04-30T10:10:00.000Z''"
abbreviation (input) t_10_30 :: string where "t_10_30 \<equiv> ''2025-04-30T10:30:00.000Z''"

definition example_strftime :: "string \<Rightarrow> int option" where
  "example_strftime =
     map_of [(t_10_00, 1746007200), (t_10_01, 1746007260), (t_10_05, 1746007500),
             (t_10_10, 1746007800), (t_10_30, 1746009000)]"

definition example_getTime :: "string \<Rightarrow> int option" where
  "example_getTime s = map_option (\<lambda>secs. 1000 * secs) (example_strftime s)"

definition system_note :: mr_note where
  "system_note = \<lparr>note_created_at = t_10_01, note_system = True\<rparr>"

definition human_note :: mr_note where
  "human_note = \<lparr>note_created_at = t_10_05, note_system = False\<rparr>"

definition first_mr :: remote_mr where
  "first_mr =
     \<lparr>mr_id = 10, mr_iid = 3, mr_title = ''Fix login'', mr_created_at = t_10_00,
      mr_updated_at = t_10_10, mr_state = ''opened'', mr_author_id = 5,
      mr_author_username = ''qoyyim'', mr_merged_at = None\<rparr>"

definition second_mr :: remote_mr where
  "second_mr =
     \<lparr>mr_id = 11, mr_iid = 4, mr_title = ''Add footer'', mr_created_at = t_10_01,
      mr_updated_at = t_10_05, mr_state = ''opened'', mr_author_id = 6,
      mr_author_username = ''alvin.yaputra'', mr_merged_at = None\<rparr>"

definition example_project :: project where
  "example_project =
     \<lparr>p_id = 7, p_name = ''web'', p_path_with_namespace = ''murid/web'',
      p_created_at = t_10_00\<rparr>"

text \<open>
  The remote project lists two merge requests on one page; every merge request has the
  same two notes, a system note at 10:01 and a human one at 10:05, and no approval. No
  statement of the database fails.
\<close>

definition example_env :: env where
  "example_env =
     \<lparr>mr_api = (\<lambda>projectId. paged 100 [first_mr, second_mr] (\<lambda>p. Some 1)),
      notes_api = (\<lambda>projectId iid. paged 100 [system_note, human_note] (\<lambda>p. Some 1)),
      approvals_api = (\<lambda>projectId iid. Some []),
      db_fails = (\<lambda>n. False),
      getTime = example_getTime,
      strftime_s = example_strftime\<rparr>"

definition empty_world :: world where
  "empty_world =
     \<lparr>merge_requests = [], projects = [], ops = 0, detail_calls = [],
      skippedCount = 0, updatedCount = 0, newCount = 0\<rparr>"

text \<open>
  A row stored by an earlier run for merge request 10 (it was last updated at 10:00) and
  classified since by \<^verbatim>\<open>update_squads.sql\<close>.
\<close>

definition stored_row :: MergeRequestData where
  "stored_row =
     \<lparr>id' = 10, project_id = 7, title = ''Fix login'', description = None,
      created_at = t_10_00, updated_at = t_10_00, state = ''opened'', author_id = 5,
      author_username = ''qoyyim'', first_comment_at = None, approved_at = None,
      merged_at = None, squad = Some ''CMS''\<rparr>"

definition stored_world :: world where
  "stored_world = empty_world\<lparr>merge_requests := [stored_row]\<rparr>"

text \<open>The same row once merged, and the remote record as merged and as closed.\<close>

definition merged_world :: world where
  "merged_world =
     empty_world\<lparr>merge_requests := [stored_row\<lparr>state := ''merged'', merged_at := Some t_10_05\<rparr>]\<rparr>"

definition merged_mr :: remote_mr where
  "merged_mr = first_mr\<lparr>mr_state := ''merged'', mr_merged_at := Some t_10_05\<rparr>"

definition closed_mr :: remote_mr where
  "closed_mr = first_mr\<lparr>mr_state := ''closed''\<rparr>"

text \<open>
  A remote project that lists a third merge request, with a database that rejects its
  fifth statement: after the project row and the lookup and the write of the first merge
  request, that is the write of the second.
\<close>

definition third_mr :: remote_mr where
  "third_mr =
     \<lparr>mr_id = 12, mr_iid = 5, mr_title = ''Update docs'', mr_created_at = t_10_05,
      mr_updated_at = t_10_10, mr_state = ''opened'', mr_author_id = 5,
      mr_author_username = ''qoyyim'', mr_merged_at = None\<rparr>"

definition rejecting_env :: env where
  "rejecting_env =
     example_env\<lparr>mr_api := (\<lambda>projectId. paged 100 [first_mr, second_mr, third_mr] (\<lambda>p. Some 1)),
                  db_fails := (\<lambda>n. n = 4)\<rparr>"

text \<open>A first page of one item that announces a second page, which then fails.\<close>

definition fails_after_first :: "nat \<Rightarrow> nat response" where
  "fails_after_first p = (if p = 1 then Response [7] (Some 2) else RequestFailed)"

text \<open>
  Three classified rows of one squad, created at 10:00, with a first comment after 10
  minutes, none, and after 30 minutes.
\<close>

definition stats_world :: world where
  "stats_world =
     empty_world\<lparr>merge_requests :=
       [stored_row\<lparr>id' := 20, first_comment_at := Some t_10_10\<rparr>,
        stored_row\<lparr>id' := 21\<rparr>,
        stored_row\<lparr>id' := 22, first_comment_at := Some t_10_30\<rparr>]\<rparr>"

text \<open>The same three rows, and a fourth of another squad whose first comment came after 5 minutes.\<close>

definition two_squads_world :: world where
  "two_squads_world =
     empty_world\<lparr>merge_requests :=
       merge_requests stats_world
       @ [stored_row\<lparr>id' := 23, first_comment_at := Some t_10_05, squad := Some ''WEB''\<rparr>]\<rparr>"

section \<open>The pagination loops\<close>

lemma loop_stop:
  "fetchMergeRequests_loop api acc p False = Some (Inr acc)"
  by (subst fetchMergeRequests_loop.simps) simp

lemma loop_empty_page:
  "api p = Response [] h \<Longrightarrow> fetchMergeRequests_loop api acc p True = Some (Inr acc)"
  by (subst fetchMergeRequests_loop.simps) (simp add: loop_stop)

lemma loop_nonempty_page:
  "api p = Response items h \<Longrightarrow> items \<noteq> [] \<Longrightarrow>
   fetchMergeRequests_loop api acc p True
     = fetchMergeRequests_loop api (acc @ items) (p + 1)
         ((0 < (case h of None \<Rightarrow> 0 | Some n \<Rightarrow> n) \<and> int p < (case h of None \<Rightarrow> 0 | Some n \<Rightarrow> n))
          \<or> length items = 100)"
  by (subst fetchMergeRequests_loop.simps) (simp add: Let_def)

text \<open>
  On a source that pages a collection by 100, the loop started at page \<open>p\<close> adds exactly
  the items from page \<open>p\<close> on, whatever the headers say. The induction is on the number
  of items not yet fetched.
\<close>

lemma loop_paged:
  "1 \<le> p \<Longrightarrow>
   fetchMergeRequests_loop (paged 100 xs hdr) acc p True
     = Some (Inr (acc @ drop (100 * (p - 1)) xs))"
proof (induction "length xs - 100 * (p - 1)" arbitrary: p acc rule: less_induct)
  case less
  define ys where "ys = drop (100 * (p - 1)) xs"
  define pg where "pg = take 100 ys"
  have api: "paged 100 xs hdr p = Response pg (hdr p)"
    by (simp add: paged_def pg_def ys_def)
  show ?case
  proof (cases "pg = []")
    case True
    then have "ys = []" by (simp add: pg_def)
    then show ?thesis
      using loop_empty_page [of "paged 100 xs hdr" p "hdr p" acc] api True
      by (simp add: ys_def)
  next
    case False
    then have "ys \<noteq> []" by (auto simp: pg_def)
    then have lt: "100 * (p - 1) < length xs" by (simp add: ys_def)
    define b where "b = ((0 < (case hdr p of None \<Rightarrow> 0 | Some n \<Rightarrow> n)
        \<and> int p < (case hdr p of None \<Rightarrow> 0 | Some n \<Rightarrow> n)) \<or> length pg = 100)"
    have step: "fetchMergeRequests_loop (paged 100 xs hdr) acc p True
        = fetchMergeRequests_loop (paged 100 xs hdr) (acc @ pg) (p + 1) b"
      unfolding b_def
      by (rule loop_nonempty_page [of "paged 100 xs hdr" p pg "hdr p" acc, OF api False])
    have rest: "pg @ drop (100 * p) xs = ys"
    proof -
      have "drop (100 * p) xs = drop 100 ys"
        using less.prems by (simp add: ys_def algebra_simps)
      then show ?thesis by (simp add: pg_def)
    qed
    show ?thesis
    proof (cases b)
      case True
      have "fetchMergeRequests_loop (paged 100 xs hdr) (acc @ pg) (p + 1) True
          = Some (Inr ((acc @ pg) @ drop (100 * (p + 1 - 1)) xs))"
        using less.prems lt by (intro less.hyps) auto
      then show ?thesis using step True rest by (simp add: ys_def)
    next
      case stop: False
      then have "length pg \<noteq> 100" by (simp add: b_def)
      then have "pg = ys" by (auto simp: pg_def min_def split: if_splits)
      then show ?thesis using step stop by (simp add: loop_stop ys_def)
    qed
  qed
qed

lemma fetchMergeRequests_paged:
  "fetchMergeRequests (paged 100 xs hdr) = Some xs"
  by (simp add: fetchMergeRequests_def loop_paged)



subsection \<open>A failed page request\<close>

lemma loop_continues:
  assumes "continues api p"
  shows "\<exists>acc'. fetchMergeRequests_loop api acc p True
            = fetchMergeRequests_loop api acc' (p + 1) True"
proof -
  from assms obtain items h where r: "api p = Response items h" and ne: "items \<noteq> []"
    and c: "(0 < (case h of None \<Rightarrow> 0 | Some n \<Rightarrow> n) \<and> int p < (case h of None \<Rightarrow> 0 | Some n \<Rightarrow> n))
           \<or> length items = 100"
    by (auto simp: continues_def split: response.splits)
  from loop_nonempty_page [of api p items h acc, OF r ne] c show ?thesis by auto
qed

lemma loop_reaches_failure:
  "p \<le> k \<Longrightarrow> api k = RequestFailed \<Longrightarrow> (\<forall>j. p \<le> j \<and> j < k \<longrightarrow> continues api j) \<Longrightarrow>
   fetchMergeRequests_loop api acc p True = Some (Inl HTTPError)"
proof (induction "k - p" arbitrary: p acc)
  case 0
  then have "p = k" by simp
  with 0 show ?case by (subst fetchMergeRequests_loop.simps) simp
next
  case (Suc d)
  then have "continues api p" by simp
  then obtain acc' where st: "fetchMergeRequests_loop api acc p True
            = fetchMergeRequests_loop api acc' (p + 1) True"
    using loop_continues by blast
  have "fetchMergeRequests_loop api acc' (p + 1) True = Some (Inl HTTPError)"
    using Suc.prems Suc.hyps(2) by (intro Suc.hyps(1)) auto
  with st show ?case by simp
qed

text \<open>
  C3, as the code has it. When the walk reaches a page whose request fails (every page
  before it was fetched and asked for the next one), \<^verbatim>\<open>fetchMergeRequests\<close> returns, it does
  not raise and does not diverge, and what it returns is the empty sequence: the items of
  the pages fetched before the failure are dropped.
\<close>

theorem fetchMergeRequests_failure_empty:
  assumes "1 \<le> k" and "api k = RequestFailed"
    and "\<forall>j. 1 \<le> j \<and> j < k \<longrightarrow> continues api j"
  shows "fetchMergeRequests api = Some []"
  using loop_reaches_failure [OF assms(1) assms(2) assms(3)]
  by (simp add: fetchMergeRequests_def)

theorem fetchMergeRequests_failure_empty_witness:
  "fails_after_first 2 = RequestFailed \<and> continues fails_after_first 1
   \<and> fetchMergeRequests fails_after_first = Some []"
proof -
  have a: "fails_after_first 2 = RequestFailed" by (simp add: fails_after_first_def)
  have c: "continues fails_after_first 1"
    by (simp add: continues_def fails_after_first_def)
  have b: "\<forall>j. 1 \<le> j \<and> j < 2 \<longrightarrow> continues fails_after_first j"
  proof (intro allI impI)
    fix j :: nat assume "1 \<le> j \<and> j < 2"
    then have "j = 1" by simp
    with c show "continues fails_after_first j" by simp
  qed
  have "(1::nat) \<le> 2" by simp
  from fetchMergeRequests_failure_empty [OF this a b] a c show ?thesis by simp
qed

text \<open>
  C3 as stated fails: page 1 succeeds with the item 7 and announces two pages, page 2
  fails; the walk returns the empty sequence, not the accumulated \<open>[7]\<close>.
\<close>

theorem fetchMergeRequests_partial_counterexample:
  "fails_after_first 1 = Response [7] (Some 2) \<and> fails_after_first 2 = RequestFailed
   \<and> fetchMergeRequests fails_after_first = Some []
   \<and> fetchMergeRequests fails_after_first \<noteq> Some [7]"
proof -
  have "fetchMergeRequests_loop fails_after_first [] 1 True
      = fetchMergeRequests_loop fails_after_first [7] 2 True"
    by (subst fetchMergeRequests_loop.simps) (simp add: fails_after_first_def numeral_2_eq_2)
  also have "\<dots> = Some (Inl HTTPError)"
    by (subst fetchMergeRequests_loop.simps) (simp add: fails_after_first_def)
  finally show ?thesis by (simp add: fetchMergeRequests_def fails_after_first_def)
qed

subsection \<open>The notes loop against the walker of the specification\<close>

lemma notes_loop_stop:
  "fetchMergeRequestDetails_loop api acc p False = Some (Inr acc)"
  by (subst fetchMergeRequestDetails_loop.simps) simp

text \<open>A first page whose header announces at most one page is all the notes loop reads.\<close>

lemma notes_loop_one_page:
  "(case hdr 1 of None \<Rightarrow> True | Some n \<Rightarrow> n \<le> 1) \<Longrightarrow>
   fetchMergeRequestDetails_loop (paged 100 xs hdr) [] 1 True = Some (Inr (take 100 xs))"
  by (subst fetchMergeRequestDetails_loop.simps)
     (auto simp: paged_def notes_loop_stop split: option.splits)

lemma fetchMergeRequestDetails_one_page:
  assumes "case hdr 1 of None \<Rightarrow> True | Some n \<Rightarrow> n \<le> 1"
  shows "fetchMergeRequestDetails (paged 100 xs hdr) ap
           = Some \<lparr>notes_of = take 100 xs,
                   approvalEvents = (case ap of None \<Rightarrow> [] | Some evs \<Rightarrow> evs)\<rparr>"
  unfolding fetchMergeRequestDetails_def notes_loop_one_page [of hdr xs, OF assms] by simp

lemma walker_paged:
  "1 \<le> p \<Longrightarrow> 0 < n \<Longrightarrow>
   pagination_walker n (paged n xs hdr) acc p = Some (acc @ drop (n * (p - 1)) xs)"
proof (induction "length xs - n * (p - 1)" arbitrary: p acc rule: less_induct)
  case less
  define ys where "ys = drop (n * (p - 1)) xs"
  define pg where "pg = take n ys"
  have api: "paged n xs hdr p = Response pg (hdr p)"
    by (simp add: paged_def pg_def ys_def)
  show ?case
  proof (cases "pg = []")
    case True
    then have "ys = []" using less.prems by (simp add: pg_def)
    then show ?thesis
      by (subst pagination_walker.simps) (simp add: api True ys_def)
  next
    case False
    then have "ys \<noteq> []" by (auto simp: pg_def)
    then have lt: "n * (p - 1) < length xs" by (simp add: ys_def)
    have np: "n * p = n + n * (p - 1)" using less.prems by (cases p) simp_all
    have rest: "pg @ drop (n * p) xs = ys"
    proof -
      from np have "drop (n * p) xs = drop n ys"
        by (simp add: ys_def add.commute)
      then show ?thesis by (simp add: pg_def)
    qed
    show ?thesis
    proof (cases "(case hdr p of None \<Rightarrow> False | Some m \<Rightarrow> int p < m) \<or> length pg = n")
      case True
      have "pagination_walker n (paged n xs hdr) (acc @ pg) (p + 1)
          = Some ((acc @ pg) @ drop (n * (p + 1 - 1)) xs)"
        using less.prems lt np by (intro less.hyps) auto
      moreover have "pagination_walker n (paged n xs hdr) acc p
          = pagination_walker n (paged n xs hdr) (acc @ pg) (p + 1)"
        using True False by (subst pagination_walker.simps) (simp add: api)
      ultimately show ?thesis using rest by (simp add: ys_def)
    next
      case stop: False
      then have "length pg \<noteq> n" by simp
      then have "pg = ys" by (auto simp: pg_def min_def split: if_splits)
      moreover have "pagination_walker n (paged n xs hdr) acc p = Some (acc @ pg)"
        using stop False by (subst pagination_walker.simps) (simp add: api)
      ultimately show ?thesis by (simp add: ys_def)
    qed
  qed
qed

text \<open>
  C6 does not hold of the code. With 150 notes served 100 to a page and no
  \<^verbatim>\<open>x-total-pages\<close> header, the notes loop of \<^verbatim>\<open>fetchMergeRequestDetails\<close> stops after the
  first page and returns 100 notes; the walker of the specification, and the
  merge-request loop beside it, return all 150.
\<close>

theorem notes_walk_truncates:
  "map_option notes_of
     (fetchMergeRequestDetails (paged 100 [0..<150] (\<lambda>p. None)) (Some ([] :: unit list)))
     = Some [0..<100]
   \<and> pagination_walker 100 (paged 100 [0..<150] (\<lambda>p. None)) [] 1 = Some [0..<150]
   \<and> fetchMergeRequests (paged 100 [0..<150] (\<lambda>p. None)) = Some [0..<150]"
proof -
  have "fetchMergeRequestDetails (paged 100 [0..<150] (\<lambda>p. None)) (Some [])
      = Some \<lparr>notes_of = [0..<100], approvalEvents = ([] :: unit list)\<rparr>"
    by (subst fetchMergeRequestDetails_one_page) simp_all
  moreover have "pagination_walker 100 (paged 100 [0..<150] (\<lambda>p. None)) [] 1 = Some [0..<150]"
    by (simp add: walker_paged)
  ultimately show ?thesis by (simp add: fetchMergeRequests_paged)
qed

section \<open>The derived timestamps\<close>

lemma set_sort_insert: "set (sort_insert cmp x ys) = insert x (set ys)"
  by (induction ys) auto

lemma set_Array_sort: "set (Array_sort cmp xs) = set xs"
  by (induction xs) (auto simp: set_sort_insert)

lemma Array_sort_Nil_iff: "Array_sort cmp xs = [] \<longleftrightarrow> xs = []"
  by (metis set_Array_sort set_empty)

lemma Array_sort_head_min:
  assumes "\<forall>a\<in>set xs. \<forall>b\<in>set xs. (cmp a b \<le> 0) = (key a \<le> (key b :: int))"
    and "Array_sort cmp xs = m # rest"
  shows "\<forall>y\<in>set xs. key m \<le> key y"
  using assms
proof (induction xs arbitrary: m rest)
  case Nil
  then show ?case by simp
next
  case (Cons x xs)
  have ord: "\<forall>a\<in>set xs. \<forall>b\<in>set xs. (cmp a b \<le> 0) = (key a \<le> key b)"
    using Cons.prems(1) by simp
  show ?case
  proof (cases "Array_sort cmp xs")
    case Nil
    then have "xs = []" by (simp add: Array_sort_Nil_iff)
    with Cons.prems(2) show ?thesis by simp
  next
    case (Cons m' rest')
    then have min': "\<forall>y\<in>set xs. key m' \<le> key y"
      using Cons.IH [OF ord] by blast
    have m'_in: "m' \<in> set xs"
      using Cons set_Array_sort [of cmp xs] by (metis list.set_intros(1))
    have cmpx: "(cmp x m' \<le> 0) = (key x \<le> key m')"
      using Cons.prems(1) m'_in by simp
    show ?thesis
    proof (cases "cmp x m' \<le> 0")
      case True
      then have "m = x" using Cons.prems(2) Cons by simp
      with True cmpx min' show ?thesis by fastforce
    next
      case False
      then have "m = m'" using Cons.prems(2) Cons by simp
      with False cmpx min' show ?thesis by fastforce
    qed
  qed
qed

lemma by_time_parsed:
  "getTime e a = Some ta \<Longrightarrow> getTime e b = Some tb \<Longrightarrow> (by_time e a b \<le> 0) = (ta \<le> tb)"
  by (simp add: by_time_def)

text \<open>
  C7. When the dates of the notes that are not system notes parse, \<^verbatim>\<open>firstComment\<close> is
  \<^verbatim>\<open>null\<close> exactly when every note is a system note (so also when there is none), and
  otherwise it is the \<^verbatim>\<open>created_at\<close> of a note that is not a system note and that no other
  such note precedes in time. System notes never contribute.
\<close>

theorem firstComment_earliest_user_note:
  assumes "\<forall>n\<in>set ns. \<not> note_system n \<longrightarrow> getTime e (note_created_at n) \<noteq> None"
  shows "(firstComment e ns = None \<longleftrightarrow> (\<forall>n\<in>set ns. note_system n))
       \<and> (\<forall>s. firstComment e ns = Some s \<longrightarrow>
            (\<exists>n\<in>set ns. \<not> note_system n \<and> note_created_at n = s
               \<and> (\<forall>m\<in>set ns. \<not> note_system m \<longrightarrow>
                     the (getTime e s) \<le> the (getTime e (note_created_at m)))))"
proof -
  define userNotes where "userNotes = filter (\<lambda>note. \<not> note_system note) ns"
  define cmp where "cmp = (\<lambda>(a::mr_note) (b::mr_note). by_time e (note_created_at a) (note_created_at b))"
  define key where "key = (\<lambda>n::mr_note. the (getTime e (note_created_at n)))"
  have fc: "firstComment e ns =
      (case Array_sort cmp userNotes of [] \<Rightarrow> None | first # _ \<Rightarrow> Some (note_created_at first))"
    by (cases "userNotes = []")
       (auto simp: firstComment_def userNotes_def cmp_def Let_def Array_sort_Nil_iff
             split: list.splits)
  have none: "firstComment e ns = None \<longleftrightarrow> (\<forall>n\<in>set ns. note_system n)"
  proof -
    have "(Array_sort cmp userNotes = []) = (userNotes = [])"
      by (rule Array_sort_Nil_iff)
    then have "firstComment e ns = None \<longleftrightarrow> userNotes = []"
      by (cases "Array_sort cmp userNotes") (simp_all add: fc)
    also have "\<dots> \<longleftrightarrow> (\<forall>n\<in>set ns. note_system n)"
      by (auto simp: userNotes_def filter_empty_conv)
    finally show ?thesis .
  qed
  have ord: "\<forall>a\<in>set userNotes. \<forall>b\<in>set userNotes. (cmp a b \<le> 0) = (key a \<le> key b)"
    using assms by (auto simp: userNotes_def cmp_def key_def by_time_parsed)
  have some: "\<exists>n\<in>set ns. \<not> note_system n \<and> note_created_at n = s
               \<and> (\<forall>m\<in>set ns. \<not> note_system m \<longrightarrow>
                     the (getTime e s) \<le> the (getTime e (note_created_at m)))"
    if "firstComment e ns = Some s" for s
  proof -
    from that obtain first rest where srt: "Array_sort cmp userNotes = first # rest"
      and s: "s = note_created_at first"
      by (auto simp: fc split: list.splits)
    have "first \<in> set userNotes"
      using srt set_Array_sort [of cmp userNotes] by (metis list.set_intros(1))
    moreover have "\<forall>y\<in>set userNotes. key first \<le> key y"
      using Array_sort_head_min [OF ord srt] .
    ultimately show ?thesis
      by (auto simp: userNotes_def key_def s intro!: bexI [of _ first])
  qed
  from none some show ?thesis by blast
qed


text \<open>
  C7 on the example of the specification: a system note at 10:01 and a human note at
  10:05 give 10:05.
\<close>

theorem firstComment_earliest_user_note_witness:
  "firstComment example_env [system_note, human_note] = Some t_10_05
   \<and> getTime example_env (note_created_at system_note) = Some 1746007260000
   \<and> getTime example_env (note_created_at human_note) = Some 1746007500000
   \<and> note_system system_note \<and> \<not> note_system human_note"
proof -
  have g: "getTime example_env (note_created_at system_note) = Some 1746007260000"
      "getTime example_env (note_created_at human_note) = Some 1746007500000"
    by (simp_all add: example_env_def system_note_def human_note_def
          example_getTime_def example_strftime_def)
  have fl: "note_system system_note" "\<not> note_system human_note"
    by (simp_all add: system_note_def human_note_def)
  have h: "\<forall>n\<in>set [system_note, human_note].
             \<not> note_system n \<longrightarrow> getTime example_env (note_created_at n) \<noteq> None"
    using g by simp
  from firstComment_earliest_user_note [OF h] fl
  obtain s where "firstComment example_env [system_note, human_note] = Some s"
    by (cases "firstComment example_env [system_note, human_note]") auto
  with firstComment_earliest_user_note [OF h] fl
  have "firstComment example_env [system_note, human_note] = Some (note_created_at human_note)"
    by auto
  then show ?thesis using g fl by (simp add: human_note_def)
qed

section \<open>The reconciling loop\<close>

lemma getMergeRequest_ok:
  "\<not> db_fails e (ops w) \<Longrightarrow>
   getMergeRequest e w projectId mrId
     = (find (\<lambda>r. project_id r = projectId \<and> id' r = mrId) (merge_requests w),
        w\<lparr>ops := ops w + 1\<rparr>)"
  by (simp add: getMergeRequest_def)

lemma getMergeRequest_failed:
  "db_fails e (ops w) \<Longrightarrow> getMergeRequest e w projectId mrId = (None, w\<lparr>ops := ops w + 1\<rparr>)"
  by (simp add: getMergeRequest_def)

lemma loop_body_skips:
  assumes "\<not> db_fails e (ops w)" and "skips projectId (merge_requests w) mr"
  shows "loop_body e projectId w mr
           = Some (Returned (w\<lparr>ops := ops w + 1, skippedCount := skippedCount w + 1\<rparr>))"
proof -
  from assms(2) obtain ex where
    f: "find (\<lambda>r. project_id r = projectId \<and> id' r = mr_id mr) (merge_requests w) = Some ex"
    and c: "(mr_state mr = ''merged'' \<and> state ex = ''merged'')
          \<or> (updated_at ex = mr_updated_at mr \<and> state ex = mr_state mr)"
    by (auto simp: skips_def split: option.splits)
  show ?thesis
    using c by (auto simp: loop_body_def getMergeRequest_ok [OF assms(1)] f Let_def)
qed

lemma loop_body_enriches:
  assumes "\<not> db_fails e (ops w)" and "\<not> skips projectId (merge_requests w) mr"
    and "fetchMergeRequestDetails (notes_api e projectId (mr_iid mr))
           (approvals_api e projectId (mr_iid mr)) = Some det"
  shows "loop_body e projectId w mr
           = Some (saveMergeRequest e
               (w\<lparr>ops := ops w + 1,
                   updatedCount := (if find (\<lambda>r. project_id r = projectId \<and> id' r = mr_id mr)
                                        (merge_requests w) \<noteq> None
                                    then updatedCount w + 1 else updatedCount w),
                   newCount := (if find (\<lambda>r. project_id r = projectId \<and> id' r = mr_id mr)
                                        (merge_requests w) \<noteq> None
                                    then newCount w else newCount w + 1),
                   detail_calls := detail_calls w @ [(projectId, mr_iid mr)]\<rparr>)
               (mrData projectId mr (firstComment e (notes_of det))
                  (approvedAt e (approvalEvents det))))"
proof (cases "find (\<lambda>r. project_id r = projectId \<and> id' r = mr_id mr) (merge_requests w)")
  case None
  then show ?thesis
    by (simp add: loop_body_def getMergeRequest_ok [OF assms(1)] assms(3) Let_def)
next
  case (Some ex)
  with assms(2) have "\<not> (mr_state mr = ''merged'' \<and> state ex = ''merged'')"
    and "updated_at ex \<noteq> mr_updated_at mr \<or> state ex \<noteq> mr_state mr"
    by (auto simp: skips_def)
  then show ?thesis
    by (auto simp: loop_body_def getMergeRequest_ok [OF assms(1)] assms(3) Some Let_def)
qed

lemma find_filter_other:
  "(\<And>x. P x \<Longrightarrow> Q x) \<Longrightarrow> find P (filter Q xs) = find P xs"
  by (induction xs) auto

lemma find_filter_none:
  "(\<And>x. P x \<Longrightarrow> \<not> Q x) \<Longrightarrow> find P (filter Q xs) = None"
  by (induction xs) auto

lemma find_append':
  "find P (xs @ ys) = (case find P xs of None \<Rightarrow> find P ys | Some x \<Rightarrow> Some x)"
  by (induction xs) auto

lemma find_replace_same:
  "(\<And>x. P x \<Longrightarrow> \<not> Q x) \<Longrightarrow> P m \<Longrightarrow> find P (filter Q xs @ [m]) = Some m"
  by (induction xs) auto

lemma find_after_save_same:
  "find (\<lambda>r. project_id r = project_id m \<and> id' r = id' m)
     (filter (\<lambda>r. \<not> (id' r = id' m \<and> project_id r = project_id m)) table @ [m]) = Some m"
  by (rule find_replace_same) auto

lemma find_after_save_other:
  "\<not> (project_id m = p \<and> id' m = i) \<Longrightarrow>
   find (\<lambda>r. project_id r = p \<and> id' r = i)
     (filter (\<lambda>r. \<not> (id' r = id' m \<and> project_id r = project_id m)) table @ [m])
   = find (\<lambda>r. project_id r = p \<and> id' r = i) table"
proof -
  assume a: "\<not> (project_id m = p \<and> id' m = i)"
  have "find (\<lambda>r. project_id r = p \<and> id' r = i)
          (filter (\<lambda>r. \<not> (id' r = id' m \<and> project_id r = project_id m)) table)
        = find (\<lambda>r. project_id r = p \<and> id' r = i) table"
    using a by (intro find_filter_other) auto
  then show ?thesis using a by (auto simp: find_append' split: option.splits)
qed


lemma saveMergeRequest_ok:
  "\<not> db_fails e (ops w) \<Longrightarrow>
   saveMergeRequest e w m
     = Returned (w\<lparr>ops := ops w + 1,
          merge_requests := filter (\<lambda>r. \<not> (id' r = id' m \<and> project_id r = project_id m))
                              (merge_requests w) @ [m]\<rparr>)"
  by (simp add: saveMergeRequest_def)

lemma saveMergeRequest_failed:
  "db_fails e (ops w) \<Longrightarrow> saveMergeRequest e w m = Thrown StoreError (w\<lparr>ops := ops w + 1\<rparr>)"
  by (simp add: saveMergeRequest_def)

lemma skips_after_save:
  "skips projectId
     (filter (\<lambda>r. \<not> (id' r = id' (mrData projectId mr fc ap)
                     \<and> project_id r = project_id (mrData projectId mr fc ap))) table
      @ [mrData projectId mr fc ap]) mr"
proof -
  have k: "project_id (mrData projectId mr fc ap) = projectId" "id' (mrData projectId mr fc ap) = mr_id mr"
    by (simp_all add: mrData_def)
  have "find (\<lambda>r. project_id r = projectId \<and> id' r = mr_id mr)
     (filter (\<lambda>r. \<not> (id' r = id' (mrData projectId mr fc ap)
                     \<and> project_id r = project_id (mrData projectId mr fc ap))) table
      @ [mrData projectId mr fc ap]) = Some (mrData projectId mr fc ap)"
    using find_after_save_same [of "mrData projectId mr fc ap" table] by (simp only: k)
  then show ?thesis unfolding skips_def by (simp add: mrData_def)
qed

lemma skips_other_after_save:
  assumes "mr_id other \<noteq> mr_id mr"
  shows "skips projectId
     (filter (\<lambda>r. \<not> (id' r = id' (mrData projectId mr fc ap)
                     \<and> project_id r = project_id (mrData projectId mr fc ap))) table
      @ [mrData projectId mr fc ap]) other
    = skips projectId table other"
proof -
  have "\<not> (project_id (mrData projectId mr fc ap) = projectId
          \<and> id' (mrData projectId mr fc ap) = mr_id other)"
    using assms by (simp add: mrData_def)
  from find_after_save_other [OF this, of table] show ?thesis
    unfolding skips_def by (simp only:)
qed

text \<open>What one turn of the loop does to the table when no statement fails.\<close>

lemma loop_body_table:
  assumes nofail: "\<forall>n. \<not> db_fails e n"
    and run: "loop_body e projectId w mr = Some (Returned w')"
  shows "(skips projectId (merge_requests w) mr \<and> merge_requests w' = merge_requests w)
       \<or> (\<exists>fc ap. merge_requests w'
             = filter (\<lambda>r. \<not> (id' r = id' (mrData projectId mr fc ap)
                     \<and> project_id r = project_id (mrData projectId mr fc ap))) (merge_requests w)
               @ [mrData projectId mr fc ap])"
proof (cases "skips projectId (merge_requests w) mr")
  case True
  with nofail run show ?thesis by (auto simp: loop_body_skips)
next
  case False
  have nf: "\<not> db_fails e (ops w)" using nofail by simp
  from run obtain det where det: "fetchMergeRequestDetails (notes_api e projectId (mr_iid mr))
           (approvals_api e projectId (mr_iid mr)) = Some det"
    using False nf
    by (cases "fetchMergeRequestDetails (notes_api e projectId (mr_iid mr))
           (approvals_api e projectId (mr_iid mr))")
       (auto simp: loop_body_def getMergeRequest_ok skips_def Let_def split: option.splits if_splits)
  define M where "M = mrData projectId mr (firstComment e (notes_of det))
                  (approvedAt e (approvalEvents det))"
  from run obtain w3 where s: "saveMergeRequest e w3 M = Returned w'"
    and t: "merge_requests w3 = merge_requests w"
    unfolding loop_body_enriches [OF nf False det] M_def by simp
  have "\<not> db_fails e (ops w3)" using nofail by simp
  from s [unfolded saveMergeRequest_ok [OF this]] t
  have "merge_requests w' = filter (\<lambda>r. \<not> (id' r = id' M \<and> project_id r = project_id M))
                              (merge_requests w) @ [M]"
    by auto
  then show ?thesis unfolding M_def by blast
qed

lemma loop_body_skips_after:
  assumes "\<forall>n. \<not> db_fails e n" and "loop_body e projectId w mr = Some (Returned w')"
  shows "skips projectId (merge_requests w') mr"
  using loop_body_table [OF assms] skips_after_save by auto

lemma loop_body_skips_other:
  assumes "\<forall>n. \<not> db_fails e n" and "loop_body e projectId w mr = Some (Returned w')"
    and "mr_id other \<noteq> mr_id mr"
  shows "skips projectId (merge_requests w') other = skips projectId (merge_requests w) other"
  using loop_body_table [OF assms(1,2)] skips_other_after_save [OF assms(3)] by auto

lemma for_loop_Cons_Returned:
  "for_loop e projectId w (mr # rest) = Some (Returned w') \<Longrightarrow>
   \<exists>w1. loop_body e projectId w mr = Some (Returned w1)
       \<and> for_loop e projectId w1 rest = Some (Returned w')"
  by (auto split: option.splits outcome.splits)

lemma for_loop_keeps_skips:
  assumes nofail: "\<forall>n. \<not> db_fails e n"
  shows "for_loop e projectId w mrs = Some (Returned w') \<Longrightarrow>
         mr_id other \<notin> mr_id ` set mrs \<Longrightarrow>
         skips projectId (merge_requests w') other = skips projectId (merge_requests w) other"
proof (induction mrs arbitrary: w)
  case Nil
  then show ?case by simp
next
  case (Cons mr rest)
  from for_loop_Cons_Returned [OF Cons.prems(1)] obtain w1 where
    b: "loop_body e projectId w mr = Some (Returned w1)"
    and r: "for_loop e projectId w1 rest = Some (Returned w')" by blast
  have "skips projectId (merge_requests w1) other = skips projectId (merge_requests w) other"
    using loop_body_skips_other [OF nofail b] Cons.prems(2) by auto
  moreover have "skips projectId (merge_requests w') other = skips projectId (merge_requests w1) other"
    using Cons.IH [OF r] Cons.prems(2) by auto
  ultimately show ?case by simp
qed

lemma for_loop_in_sync:
  assumes nofail: "\<forall>n. \<not> db_fails e n"
  shows "for_loop e projectId w mrs = Some (Returned w') \<Longrightarrow> distinct (map mr_id mrs) \<Longrightarrow>
         \<forall>mr\<in>set mrs. skips projectId (merge_requests w') mr"
proof (induction mrs arbitrary: w)
  case Nil
  then show ?case by simp
next
  case (Cons mr rest)
  from for_loop_Cons_Returned [OF Cons.prems(1)] obtain w1 where
    b: "loop_body e projectId w mr = Some (Returned w1)"
    and r: "for_loop e projectId w1 rest = Some (Returned w')" by blast
  have "skips projectId (merge_requests w1) mr"
    using loop_body_skips_after [OF nofail b] .
  moreover have "mr_id mr \<notin> mr_id ` set rest" using Cons.prems(2) by auto
  ultimately have "skips projectId (merge_requests w') mr"
    using for_loop_keeps_skips [OF nofail r] by blast
  moreover have "\<forall>m\<in>set rest. skips projectId (merge_requests w') m"
    using Cons.IH [OF r] Cons.prems(2) by simp
  ultimately show ?case by simp
qed

lemma for_loop_all_skipped:
  assumes nofail: "\<forall>n. \<not> db_fails e n"
  shows "\<forall>mr\<in>set mrs. skips projectId (merge_requests w) mr \<Longrightarrow>
         \<exists>w'. for_loop e projectId w mrs = Some (Returned w')
             \<and> merge_requests w' = merge_requests w \<and> detail_calls w' = detail_calls w
             \<and> projects w' = projects w"
proof (induction mrs arbitrary: w)
  case Nil
  then show ?case by simp
next
  case (Cons mr rest)
  define w1 where "w1 = w\<lparr>ops := ops w + 1, skippedCount := skippedCount w + 1\<rparr>"
  have b: "loop_body e projectId w mr = Some (Returned w1)"
    unfolding w1_def using Cons.prems nofail by (intro loop_body_skips) auto
  have "\<forall>m\<in>set rest. skips projectId (merge_requests w1) m"
    using Cons.prems by (simp add: w1_def)
  from Cons.IH [OF this] obtain w' where
    "for_loop e projectId w1 rest = Some (Returned w')"
    "merge_requests w' = merge_requests w1" "detail_calls w' = detail_calls w1"
    "projects w' = projects w1" by blast
  then show ?case using b by (simp add: w1_def)
qed

lemma skips_squad_update:
  "skips projectId (map (\<lambda>r. r\<lparr>squad := f r\<rparr>) table) mr = skips projectId table mr"
proof -
  have "find (\<lambda>r. project_id r = projectId \<and> id' r = mr_id mr) (map (\<lambda>r. r\<lparr>squad := f r\<rparr>) table)
      = map_option (\<lambda>r. r\<lparr>squad := f r\<rparr>)
          (find (\<lambda>r. project_id r = projectId \<and> id' r = mr_id mr) table)"
    by (induction table) auto
  then show ?thesis by (auto simp: skips_def split: option.splits)
qed

lemma saveProject_ok:
  "\<not> db_fails e (ops w) \<Longrightarrow>
   saveProject e w p = Returned (w\<lparr>ops := ops w + 1,
        projects := filter (\<lambda>q. p_id q \<noteq> p_id p) (projects w) @ [p]\<rparr>)"
  by (simp add: saveProject_def)

lemma update_path_nulls_squad:
  assumes nofail: "\<forall>n. \<not> db_fails e n"
    and ex: "find (\<lambda>r. project_id r = projectId \<and> id' r = mr_id mr) (merge_requests w) = Some ex"
    and ns: "\<not> skips projectId (merge_requests w) mr"
    and det: "fetchMergeRequestDetails (notes_api e projectId (mr_iid mr))
           (approvals_api e projectId (mr_iid mr)) = Some det"
  shows "\<exists>w'. loop_body e projectId w mr = Some (Returned w')
            \<and> updatedCount w' = updatedCount w + 1
            \<and> map_option squad (find (\<lambda>r. project_id r = projectId \<and> id' r = mr_id mr)
                  (merge_requests w')) = Some None"
proof -
  have nf: "\<not> db_fails e (ops w)" using nofail by simp
  define M where "M = mrData projectId mr (firstComment e (notes_of det))
                  (approvedAt e (approvalEvents det))"
  have k: "project_id M = projectId" "id' M = mr_id mr" "squad M = None"
    by (simp_all add: M_def mrData_def)
  have f: "find (\<lambda>r. project_id r = projectId \<and> id' r = mr_id mr)
     (filter (\<lambda>r. \<not> (id' r = id' M \<and> project_id r = project_id M)) (merge_requests w) @ [M]) = Some M"
    using find_after_save_same [of M "merge_requests w"] by (simp only: k)
  show ?thesis
    unfolding loop_body_enriches [OF nf ns det] M_def [symmetric]
    using nofail f k by (simp add: saveMergeRequest_def ex)
qed

lemma second_run_changes_nothing:
  assumes nofail: "\<forall>n. \<not> db_fails e n"
    and fetch: "fetchMergeRequests (mr_api e projectId) = Some mrs"
    and dist: "distinct (map mr_id mrs)"
    and run1: "processAndStoreMergeRequests e projectId proj w0 = Some (Returned w1)"
    and between: "merge_requests w1' = map (\<lambda>r. r\<lparr>squad := f r\<rparr>) (merge_requests w1)"
  shows "\<exists>w2. processAndStoreMergeRequests e projectId proj w1' = Some (Returned w2)
            \<and> merge_requests w2 = merge_requests w1' \<and> detail_calls w2 = detail_calls w1'"
proof (cases "mrs = []")
  case True
  then show ?thesis by (simp add: processAndStoreMergeRequests_def fetch)
next
  case False
  define v0 where "v0 = (w0\<lparr>ops := ops w0 + 1,
        projects := filter (\<lambda>q. p_id q \<noteq> p_id proj) (projects w0) @ [proj],
        skippedCount := 0, updatedCount := 0, newCount := 0\<rparr>)"
  have "for_loop e projectId v0 mrs = Some (Returned w1)"
    using run1 False nofail
    by (simp add: processAndStoreMergeRequests_def fetch saveProject_def v0_def)
  from for_loop_in_sync [OF nofail this dist]
  have "\<forall>mr\<in>set mrs. skips projectId (merge_requests w1') mr"
    by (simp add: between skips_squad_update)
  define v1 where "v1 = (w1'\<lparr>ops := ops w1' + 1,
        projects := filter (\<lambda>q. p_id q \<noteq> p_id proj) (projects w1') @ [proj],
        skippedCount := 0, updatedCount := 0, newCount := 0\<rparr>)"
  have "\<forall>mr\<in>set mrs. skips projectId (merge_requests v1) mr"
    using \<open>\<forall>mr\<in>set mrs. skips projectId (merge_requests w1') mr\<close> by (simp add: v1_def)
  from for_loop_all_skipped [OF nofail this] obtain w2 where
    "for_loop e projectId v1 mrs = Some (Returned w2)"
    "merge_requests w2 = merge_requests v1" "detail_calls w2 = detail_calls v1" by blast
  then show ?thesis
    using False nofail
    by (simp add: processAndStoreMergeRequests_def fetch saveProject_def v1_def)
qed

text \<open>
  C1, as the code has it. When no statement of the database fails: (1) a merge request
  that has a stored row and is not skipped takes the update path, and the row found
  under its key afterwards has a null squad, whatever the squad was before; (2) after a
  full sync over distinct remote ids, a second full sync against the same remote data
  returns with the table as it found it and makes no detail call, also when squads were
  assigned to the rows in between. A stored squad survives a run only on the skip paths.
\<close>

theorem squad_survives_only_skips:
  assumes nofail: "\<forall>n. \<not> db_fails e n"
  shows "(\<forall>w mr ex det.
            find (\<lambda>r. project_id r = projectId \<and> id' r = mr_id mr) (merge_requests w) = Some ex
            \<and> \<not> skips projectId (merge_requests w) mr
            \<and> fetchMergeRequestDetails (notes_api e projectId (mr_iid mr))
                  (approvals_api e projectId (mr_iid mr)) = Some det
          \<longrightarrow> (\<exists>w'. loop_body e projectId w mr = Some (Returned w')
                \<and> updatedCount w' = updatedCount w + 1
                \<and> map_option squad (find (\<lambda>r. project_id r = projectId \<and> id' r = mr_id mr)
                      (merge_requests w')) = Some None))
       \<and> (\<forall>w0 w1 w1' mrs f proj.
            fetchMergeRequests (mr_api e projectId) = Some mrs \<and> distinct (map mr_id mrs)
            \<and> processAndStoreMergeRequests e projectId proj w0 = Some (Returned w1)
            \<and> merge_requests w1' = map (\<lambda>r. r\<lparr>squad := f r\<rparr>) (merge_requests w1)
          \<longrightarrow> (\<exists>w2. processAndStoreMergeRequests e projectId proj w1' = Some (Returned w2)
                \<and> merge_requests w2 = merge_requests w1' \<and> detail_calls w2 = detail_calls w1'))"
  using update_path_nulls_squad [OF nofail] second_run_changes_nothing [OF nofail]
  by blast

text \<open>
  C2, as the code has it. When the lookup succeeds and finds a row whose state is
  \<^verbatim>\<open>merged\<close>, and the remote record is \<^verbatim>\<open>merged\<close> as well, the turn of the loop makes no
  detail call and leaves the table as it is; nothing is asked of \<^verbatim>\<open>updated_at\<close>.
\<close>

theorem merged_on_both_sides_skipped:
  assumes "\<not> db_fails e (ops w)"
    and "find (\<lambda>r. project_id r = projectId \<and> id' r = mr_id mr) (merge_requests w) = Some ex"
    and "state ex = ''merged''" and "mr_state mr = ''merged''"
  shows "\<exists>w'. loop_body e projectId w mr = Some (Returned w')
           \<and> detail_calls w' = detail_calls w \<and> merge_requests w' = merge_requests w
           \<and> skippedCount w' = skippedCount w + 1"
proof -
  have "skips projectId (merge_requests w) mr"
    using assms(2-4) by (simp add: skips_def)
  from loop_body_skips [OF assms(1) this] show ?thesis by simp
qed

lemma loop_body_Thrown:
  assumes "loop_body e projectId w mr = Some (Thrown err w')"
  shows "err = StoreError \<and> merge_requests w' = merge_requests w
       \<and> detail_calls w' = detail_calls w @ [(projectId, mr_iid mr)]"
  using assms
  by (auto simp: loop_body_def getMergeRequest_def saveMergeRequest_def Let_def
           split: if_splits option.splits prod.splits)

lemma for_loop_append:
  "for_loop e projectId w (xs @ ys)
     = (case for_loop e projectId w xs of
          Some (Returned w') \<Rightarrow> for_loop e projectId w' ys
        | r \<Rightarrow> r)"
  by (induction xs arbitrary: w) (auto split: option.splits outcome.splits)

text \<open>
  A turn that is not skipped and whose details arrive ends in the error of the store when
  the statement after its lookup, the \<^verbatim>\<open>INSERT OR REPLACE\<close>, is rejected, whether the
  lookup itself succeeded or not.
\<close>

lemma loop_body_save_rejected:
  assumes ns: "\<not> skips projectId (merge_requests w) mr"
    and det: "fetchMergeRequestDetails (notes_api e projectId (mr_iid mr))
           (approvals_api e projectId (mr_iid mr)) = Some det"
    and rej: "db_fails e (ops w + 1)"
  shows "\<exists>w'. loop_body e projectId w mr = Some (Thrown StoreError w')
           \<and> merge_requests w' = merge_requests w
           \<and> detail_calls w' = detail_calls w @ [(projectId, mr_iid mr)]
           \<and> ops w' = ops w + 2"
proof (cases "db_fails e (ops w)")
  case True
  show ?thesis
    using rej
    by (simp add: loop_body_def getMergeRequest_failed [OF True] det Let_def
          saveMergeRequest_def)
next
  case False
  show ?thesis
    unfolding loop_body_enriches [OF False ns det]
    using rej by (simp add: saveMergeRequest_def)
qed

text \<open>
  C4, as the code has it. Let the records before one record of the batch be processed,
  let that record not be skipped and its details be fetched, and let the database reject
  the \<^verbatim>\<open>INSERT OR REPLACE\<close> that follows its lookup. Then \<^verbatim>\<open>processAndStoreMergeRequests\<close>
  ends there with the error of the store: the table is as the records before it left it,
  the record itself was enriched but not stored, and the two statements of that record
  are the last ones issued, so no record after it is looked up, enriched or stored.
\<close>

theorem save_failure_aborts_run:
  assumes fetch: "fetchMergeRequests (mr_api e projectId) = Some (pre @ mr # post)"
    and sp: "saveProject e w proj = Returned w0"
    and pre: "for_loop e projectId (w0\<lparr>skippedCount := 0, updatedCount := 0, newCount := 0\<rparr>) pre
           = Some (Returned w1)"
    and ns: "\<not> skips projectId (merge_requests w1) mr"
    and det: "fetchMergeRequestDetails (notes_api e projectId (mr_iid mr))
           (approvals_api e projectId (mr_iid mr)) = Some det"
    and rej: "db_fails e (ops w1 + 1)"
  shows "\<exists>w2. processAndStoreMergeRequests e projectId proj w = Some (Thrown StoreError w2)
       \<and> merge_requests w2 = merge_requests w1
       \<and> detail_calls w2 = detail_calls w1 @ [(projectId, mr_iid mr)]
       \<and> ops w2 = ops w1 + 2"
proof -
  from loop_body_save_rejected [OF ns det rej] obtain w2 where
    t: "loop_body e projectId w1 mr = Some (Thrown StoreError w2)"
    and r: "merge_requests w2 = merge_requests w1"
      "detail_calls w2 = detail_calls w1 @ [(projectId, mr_iid mr)]" "ops w2 = ops w1 + 2"
    by blast
  have "processAndStoreMergeRequests e projectId proj w = Some (Thrown StoreError w2)"
    using fetch sp pre t by (simp add: processAndStoreMergeRequests_def for_loop_append)
  with r show ?thesis by blast
qed

text \<open>
  C10. When the \<^verbatim>\<open>SELECT\<close> of \<^verbatim>\<open>getMergeRequest\<close> is rejected, the function returns \<^verbatim>\<open>null\<close>;
  the turn of the loop then counts the record as new, fetches its details and, the
  \<^verbatim>\<open>INSERT OR REPLACE\<close> succeeding, leaves under its key the row built from the remote data
  alone. The turn is the same as the one taken when the lookup succeeds on a table
  without a row of that key, whatever row, merged or not, the table really held.
\<close>

theorem failed_lookup_takes_insert_path:
  assumes lookup: "db_fails e (ops w)"
    and det: "fetchMergeRequestDetails (notes_api e projectId (mr_iid mr))
           (approvals_api e projectId (mr_iid mr)) = Some det"
    and save: "\<not> db_fails e (ops w + 1)"
  shows "getMergeRequest e w projectId (mr_id mr) = (None, w\<lparr>ops := ops w + 1\<rparr>)
       \<and> (\<exists>w'. loop_body e projectId w mr = Some (Returned w')
             \<and> newCount w' = newCount w + 1 \<and> updatedCount w' = updatedCount w
             \<and> detail_calls w' = detail_calls w @ [(projectId, mr_iid mr)]
             \<and> find (\<lambda>r. project_id r = projectId \<and> id' r = mr_id mr) (merge_requests w')
                 = Some (mrData projectId mr (firstComment e (notes_of det))
                           (approvedAt e (approvalEvents det))))
       \<and> loop_body e projectId w mr
           = loop_body (e\<lparr>db_fails := (db_fails e)(ops w := False)\<rparr>) projectId
               (w\<lparr>merge_requests :=
                    filter (\<lambda>r. \<not> (project_id r = projectId \<and> id' r = mr_id mr))
                      (merge_requests w)\<rparr>) mr"
proof -
  define M where "M = mrData projectId mr (firstComment e (notes_of det))
                  (approvedAt e (approvalEvents det))"
  have k: "project_id M = projectId" "id' M = mr_id mr"
    by (simp_all add: M_def mrData_def)
  define w3 where "w3 = w\<lparr>ops := ops w + 1, newCount := newCount w + 1,
      detail_calls := detail_calls w @ [(projectId, mr_iid mr)]\<rparr>"
  have lb: "loop_body e projectId w mr = Some (saveMergeRequest e w3 M)"
    by (simp add: loop_body_def getMergeRequest_failed [OF lookup] det Let_def w3_def M_def)
  have sv: "saveMergeRequest e w3 M
      = Returned (w3\<lparr>ops := ops w3 + 1,
          merge_requests := filter (\<lambda>r. \<not> (id' r = id' M \<and> project_id r = project_id M))
                              (merge_requests w3) @ [M]\<rparr>)"
    using save by (intro saveMergeRequest_ok) (simp add: w3_def)
  have f: "find (\<lambda>r. project_id r = projectId \<and> id' r = mr_id mr)
     (filter (\<lambda>r. \<not> (id' r = id' M \<and> project_id r = project_id M)) (merge_requests w) @ [M]) = Some M"
    using find_after_save_same [of M "merge_requests w"] by (simp only: k)
  have one: "getMergeRequest e w projectId (mr_id mr) = (None, w\<lparr>ops := ops w + 1\<rparr>)"
    by (rule getMergeRequest_failed [OF lookup])
  have two: "\<exists>w'. loop_body e projectId w mr = Some (Returned w')
             \<and> newCount w' = newCount w + 1 \<and> updatedCount w' = updatedCount w
             \<and> detail_calls w' = detail_calls w @ [(projectId, mr_iid mr)]
             \<and> find (\<lambda>r. project_id r = projectId \<and> id' r = mr_id mr) (merge_requests w') = Some M"
    unfolding lb sv using f by (simp add: w3_def)
  define e' where "e' = e\<lparr>db_fails := (db_fails e)(ops w := False)\<rparr>"
  define v where "v = w\<lparr>merge_requests :=
                    filter (\<lambda>r. \<not> (project_id r = projectId \<and> id' r = mr_id mr))
                      (merge_requests w)\<rparr>"
  have nf: "find (\<lambda>r. project_id r = projectId \<and> id' r = mr_id mr) (merge_requests v) = None"
    unfolding v_def by (simp add: find_filter_none)
  have g: "getMergeRequest e' v projectId (mr_id mr) = (None, v\<lparr>ops := ops v + 1\<rparr>)"
    by (simp add: getMergeRequest_def e'_def v_def nf [unfolded v_def, simplified])
  define v3 where "v3 = v\<lparr>ops := ops v + 1, newCount := newCount v + 1,
      detail_calls := detail_calls v @ [(projectId, mr_iid mr)]\<rparr>"
  have api: "notes_api e' = notes_api e" "approvals_api e' = approvals_api e"
    by (simp_all add: e'_def)
  have gt: "getTime e' = getTime e"
    by (simp add: e'_def)
  have bt: "by_time e' = by_time e"
    by (auto simp: fun_eq_iff by_time_def gt split: option.splits)
  have drv: "firstComment e' ns = firstComment e ns" "approvedAt e' evs = approvedAt e evs"
    for ns evs
    unfolding firstComment_def approvedAt_def bt by simp_all
  have lb': "loop_body e' projectId v mr = Some (saveMergeRequest e' v3 M)"
    by (simp add: loop_body_def g Let_def v3_def M_def api drv det)
  have same_filter: "filter (\<lambda>r. \<not> (id' r = id' M \<and> project_id r = project_id M)) (merge_requests v)
      = filter (\<lambda>r. \<not> (id' r = id' M \<and> project_id r = project_id M)) (merge_requests w)"
    by (auto simp: v_def k intro: filter_cong)
  have sv': "saveMergeRequest e' v3 M = saveMergeRequest e w3 M"
    using save same_filter
    by (simp add: saveMergeRequest_def e'_def v3_def w3_def v_def)
  have three: "loop_body e projectId w mr = loop_body e' projectId v mr"
    by (simp add: lb lb' sv')
  from one two three show ?thesis unfolding M_def e'_def v_def by blast
qed

section \<open>The statements on the concrete inputs\<close>

subsection \<open>What the example project answers\<close>

lemma example_fetch:
  "fetchMergeRequests (mr_api example_env projectId) = Some [first_mr, second_mr]"
  by (simp add: example_env_def fetchMergeRequests_paged)

lemma example_details:
  "fetchMergeRequestDetails (notes_api example_env projectId iid)
     (approvals_api example_env projectId iid)
   = Some \<lparr>notes_of = [system_note, human_note], approvalEvents = []\<rparr>"
  by (simp add: example_env_def fetchMergeRequestDetails_one_page)

lemma example_firstComment:
  "firstComment (example_env\<lparr>db_fails := f\<rparr>) [system_note, human_note] = Some t_10_05"
  by (simp add: firstComment_def system_note_def human_note_def)

lemma example_approvedAt:
  "approvedAt (example_env\<lparr>db_fails := f\<rparr>) [] = None"
  by (simp add: approvedAt_def)

lemma example_env_same: "example_env\<lparr>db_fails := (\<lambda>n. False)\<rparr> = example_env"
  by (simp add: example_env_def)

lemmas example_run =
  example_fetch example_details example_firstComment example_approvedAt

lemma example_env_nofail: "\<forall>n. \<not> db_fails example_env n"
  by (simp add: example_env_def)

lemma first_run_on_stored:
  "processAndStoreMergeRequests example_env 7 example_project stored_world
     = Some (Returned (stored_world\<lparr>ops := 5, projects := [example_project],
          updatedCount := 1, newCount := 1, detail_calls := [(7, 3), (7, 4)],
          merge_requests := [mrData 7 first_mr (Some t_10_05) None,
                             mrData 7 second_mr (Some t_10_05) None]\<rparr>))"
proof -
  define v where "v = stored_world\<lparr>ops := 1, projects := [example_project]\<rparr>"
  define v1 where "v1 = v\<lparr>ops := 3, updatedCount := 1, detail_calls := [(7, 3)],
          merge_requests := [mrData 7 first_mr (Some t_10_05) None]\<rparr>"
  define v2 where "v2 = v1\<lparr>ops := 5, newCount := 1, detail_calls := [(7, 3), (7, 4)],
          merge_requests := [mrData 7 first_mr (Some t_10_05) None,
                             mrData 7 second_mr (Some t_10_05) None]\<rparr>"
  have sp: "saveProject example_env stored_world example_project = Returned v"
    by (simp add: saveProject_def example_env_def stored_world_def empty_world_def v_def)
  have v0: "v\<lparr>skippedCount := 0, updatedCount := 0, newCount := 0\<rparr> = v"
    by (simp add: v_def stored_world_def empty_world_def)
  have t1: "loop_body example_env 7 v first_mr = Some (Returned v1)"
    by (simp add: loop_body_def getMergeRequest_def saveMergeRequest_def Let_def example_run
        example_firstComment [of "\<lambda>n. False", unfolded example_env_same]
        example_approvedAt [of "\<lambda>n. False", unfolded example_env_same]
        example_env_nofail v_def v1_def
        stored_world_def stored_row_def first_mr_def empty_world_def mrData_def)
  have t2: "loop_body example_env 7 v1 second_mr = Some (Returned v2)"
    by (simp add: loop_body_def getMergeRequest_def saveMergeRequest_def Let_def example_run
        example_firstComment [of "\<lambda>n. False", unfolded example_env_same]
        example_approvedAt [of "\<lambda>n. False", unfolded example_env_same]
        example_env_nofail v_def v1_def v2_def
        stored_world_def stored_row_def first_mr_def second_mr_def empty_world_def mrData_def)
  show ?thesis
    by (simp add: processAndStoreMergeRequests_def example_fetch sp v0 t1 t2)
       (simp add: v2_def v1_def v_def stored_world_def empty_world_def)
qed

subsection \<open>The classification label\<close>

text \<open>
  C1 as stated fails. The table holds merge request 10 with squad \<^verbatim>\<open>CMS\<close>; the remote
  record has a later \<^verbatim>\<open>updated_at\<close>. The sync takes the update path for it, and the row
  it writes back has a null squad.
\<close>

theorem update_path_loses_squad_counterexample:
  "map squad (merge_requests stored_world) = [Some ''CMS'']
   \<and> map_option (\<lambda>w. map (\<lambda>r. (id' r, squad r)) (merge_requests w))
        (returned (processAndStoreMergeRequests example_env 7 example_project stored_world))
       = Some [(10, None), (11, None)]
   \<and> map_option updatedCount
        (returned (processAndStoreMergeRequests example_env 7 example_project stored_world))
       = Some 1"
  unfolding first_run_on_stored
  by (simp add: returned_def stored_world_def stored_row_def mrData_def first_mr_def second_mr_def)

text \<open>
  C1 as the code has it, on the example: the update path nulls the squad \<^verbatim>\<open>CMS\<close> of merge
  request 10; once both rows are classified \<^verbatim>\<open>WEB\<close> after that run, a second run against
  the same remote data keeps both labels and fetches no details.
\<close>

theorem squad_survives_only_skips_witness:
  "find (\<lambda>r. project_id r = 7 \<and> id' r = mr_id first_mr) (merge_requests stored_world)
     = Some stored_row
   \<and> squad stored_row = Some ''CMS''
   \<and> (\<exists>w'. loop_body example_env 7 stored_world first_mr = Some (Returned w')
         \<and> map_option squad (find (\<lambda>r. project_id r = 7 \<and> id' r = mr_id first_mr)
               (merge_requests w')) = Some None)
   \<and> (\<exists>w1 w2. processAndStoreMergeRequests example_env 7 example_project stored_world
                  = Some (Returned w1)
         \<and> processAndStoreMergeRequests example_env 7 example_project
              (w1\<lparr>merge_requests := map (\<lambda>r. r\<lparr>squad := Some ''WEB''\<rparr>) (merge_requests w1)\<rparr>)
              = Some (Returned w2)
         \<and> map squad (merge_requests w2) = [Some ''WEB'', Some ''WEB'']
         \<and> detail_calls w2 = detail_calls w1)"
proof -
  note inst = squad_survives_only_skips [OF example_env_nofail, of 7]
  have f: "find (\<lambda>r. project_id r = 7 \<and> id' r = mr_id first_mr) (merge_requests stored_world)
     = Some stored_row"
    by (simp add: stored_world_def stored_row_def first_mr_def)
  have sq: "squad stored_row = Some ''CMS''" by (simp add: stored_row_def)
  have ns: "\<not> skips 7 (merge_requests stored_world) first_mr"
    by (simp add: skips_def stored_world_def stored_row_def first_mr_def)
  have det: "fetchMergeRequestDetails (notes_api example_env 7 (mr_iid first_mr))
               (approvals_api example_env 7 (mr_iid first_mr))
             = Some \<lparr>notes_of = [system_note, human_note], approvalEvents = []\<rparr>"
    by (rule example_details)
  from inst f ns det
  have one: "\<exists>w'. loop_body example_env 7 stored_world first_mr = Some (Returned w')
         \<and> map_option squad (find (\<lambda>r. project_id r = 7 \<and> id' r = mr_id first_mr)
               (merge_requests w')) = Some None"
    by blast
  define w1 where "w1 = stored_world\<lparr>ops := 5, projects := [example_project],
          updatedCount := 1, newCount := 1, detail_calls := [(7, 3), (7, 4)],
          merge_requests := [mrData 7 first_mr (Some t_10_05) None,
                             mrData 7 second_mr (Some t_10_05) None]\<rparr>"
  define w1' where
    "w1' = w1\<lparr>merge_requests := map (\<lambda>r. r\<lparr>squad := Some ''WEB''\<rparr>) (merge_requests w1)\<rparr>"
  have run1: "processAndStoreMergeRequests example_env 7 example_project stored_world
                = Some (Returned w1)"
    unfolding w1_def by (rule first_run_on_stored)
  have fetch: "fetchMergeRequests (mr_api example_env 7) = Some [first_mr, second_mr]"
    by (rule example_fetch)
  have dist: "distinct (map mr_id [first_mr, second_mr])"
    by (simp add: first_mr_def second_mr_def)
  have between: "merge_requests w1' = map (\<lambda>r. r\<lparr>squad := (\<lambda>r. Some ''WEB'') r\<rparr>) (merge_requests w1)"
    by (simp add: w1'_def)
  note part2 = inst [THEN conjunct2, rule_format,
      where f = "\<lambda>r. Some ''WEB''" and mrs = "[first_mr, second_mr]"
        and proj = example_project]
  from part2 fetch dist run1 between
  obtain w2 where run2: "processAndStoreMergeRequests example_env 7 example_project w1'
                           = Some (Returned w2)"
    and same: "merge_requests w2 = merge_requests w1'" "detail_calls w2 = detail_calls w1'"
    by blast
  have "map squad (merge_requests w2) = [Some ''WEB'', Some ''WEB'']"
    by (simp add: same w1'_def w1_def)
  moreover have "detail_calls w2 = detail_calls w1"
    by (simp add: same w1'_def)
  ultimately have two: "\<exists>w1 w2. processAndStoreMergeRequests example_env 7 example_project stored_world
                  = Some (Returned w1)
         \<and> processAndStoreMergeRequests example_env 7 example_project
              (w1\<lparr>merge_requests := map (\<lambda>r. r\<lparr>squad := Some ''WEB''\<rparr>) (merge_requests w1)\<rparr>)
              = Some (Returned w2)
         \<and> map squad (merge_requests w2) = [Some ''WEB'', Some ''WEB'']
         \<and> detail_calls w2 = detail_calls w1"
    using run1 run2 unfolding w1'_def
    by (intro exI [of _ w1] exI [of _ w2]) simp
  from f sq one two show ?thesis by (intro conjI)
qed

subsection \<open>A stored merged record\<close>

lemma merged_find:
  "find (\<lambda>r. project_id r = 7 \<and> id' r = 10) (merge_requests merged_world)
     = Some (stored_row\<lparr>state := ''merged'', merged_at := Some t_10_05\<rparr>)"
  by (simp add: merged_world_def stored_row_def)

text \<open>
  C2 as the code has it, on the example: the stored row is merged and was updated at
  10:00, the remote record is merged and was updated at 10:10; no detail call is made
  and the table is left alone.
\<close>

theorem merged_on_both_sides_skipped_witness:
  "find (\<lambda>r. project_id r = 7 \<and> id' r = mr_id merged_mr) (merge_requests merged_world)
     = Some (stored_row\<lparr>state := ''merged'', merged_at := Some t_10_05\<rparr>)
   \<and> updated_at (stored_row\<lparr>state := ''merged'', merged_at := Some t_10_05\<rparr>) = t_10_00
   \<and> mr_updated_at merged_mr = t_10_10
   \<and> (\<exists>w'. loop_body example_env 7 merged_world merged_mr = Some (Returned w')
         \<and> detail_calls w' = detail_calls merged_world
         \<and> merge_requests w' = merge_requests merged_world)"
proof -
  have nf: "\<not> db_fails example_env (ops merged_world)" by (simp add: example_env_def)
  have f: "find (\<lambda>r. project_id r = 7 \<and> id' r = mr_id merged_mr) (merge_requests merged_world)
     = Some (stored_row\<lparr>state := ''merged'', merged_at := Some t_10_05\<rparr>)"
    using merged_find by (simp add: merged_mr_def first_mr_def)
  have st: "state (stored_row\<lparr>state := ''merged'', merged_at := Some t_10_05\<rparr>) = ''merged''"
    by simp
  have rs: "mr_state merged_mr = ''merged''" by (simp add: merged_mr_def)
  have u: "updated_at (stored_row\<lparr>state := ''merged'', merged_at := Some t_10_05\<rparr>) = t_10_00"
     "mr_updated_at merged_mr = t_10_10"
    by (simp_all add: stored_row_def merged_mr_def first_mr_def)
  from merged_on_both_sides_skipped [OF nf f st rs]
  have "\<exists>w'. loop_body example_env 7 merged_world merged_mr = Some (Returned w')
         \<and> detail_calls w' = detail_calls merged_world
         \<and> merge_requests w' = merge_requests merged_world"
    by blast
  with f u show ?thesis by (intro conjI)
qed

text \<open>
  C2 as stated fails, in two ways. The stored row is merged. When the remote record of
  the same merge request reports the state \<^verbatim>\<open>closed\<close>, the turn of the loop calls
  \<^verbatim>\<open>fetchMergeRequestDetails\<close> for it and rewrites \<^verbatim>\<open>first_comment_at\<close> from null to 10:05. When
  the remote record is merged as well but the \<^verbatim>\<open>SELECT\<close> of the lookup is rejected, the
  same happens.
\<close>

theorem merged_row_reenriched_counterexample:
  "map state (merge_requests merged_world) = [''merged'']
   \<and> map first_comment_at (merge_requests merged_world) = [None]
   \<and> detail_calls merged_world = []
   \<and> map_option detail_calls (returned (loop_body example_env 7 merged_world closed_mr))
       = Some [(7, 3)]
   \<and> map_option (\<lambda>w. map first_comment_at (merge_requests w))
        (returned (loop_body example_env 7 merged_world closed_mr))
       = Some [Some t_10_05]
   \<and> mr_state merged_mr = ''merged''
   \<and> map_option detail_calls
        (returned (loop_body (example_env\<lparr>db_fails := (\<lambda>n. n = 0)\<rparr>) 7 merged_world merged_mr))
       = Some [(7, 3)]
   \<and> map_option (\<lambda>w. map first_comment_at (merge_requests w))
        (returned (loop_body (example_env\<lparr>db_fails := (\<lambda>n. n = 0)\<rparr>) 7 merged_world merged_mr))
       = Some [Some t_10_05]"
proof -
  have a: "loop_body example_env 7 merged_world closed_mr
     = Some (Returned (merged_world\<lparr>ops := 2, updatedCount := 1, detail_calls := [(7, 3)],
          merge_requests := [mrData 7 closed_mr (Some t_10_05) None]\<rparr>))"
    by (simp add: loop_body_def getMergeRequest_def saveMergeRequest_def Let_def example_run
        example_firstComment [of "\<lambda>n. False", unfolded example_env_same]
        example_approvedAt [of "\<lambda>n. False", unfolded example_env_same]
        example_env_nofail merged_world_def closed_mr_def
        stored_row_def first_mr_def empty_world_def mrData_def)
  have b: "loop_body (example_env\<lparr>db_fails := (\<lambda>n. n = 0)\<rparr>) 7 merged_world merged_mr
     = Some (Returned (merged_world\<lparr>ops := 2, newCount := 1, detail_calls := [(7, 3)],
          merge_requests := [mrData 7 merged_mr (Some t_10_05) None]\<rparr>))"
    by (simp add: loop_body_def getMergeRequest_def saveMergeRequest_def Let_def example_run
        merged_world_def merged_mr_def
        stored_row_def first_mr_def empty_world_def mrData_def)
  show ?thesis
    unfolding a b
    by (simp add: returned_def merged_world_def stored_row_def empty_world_def mrData_def
          merged_mr_def)
qed

subsection \<open>A rejected statement\<close>

lemma save_fails_project:
  "saveProject (example_env\<lparr>db_fails := (\<lambda>n. n = 2)\<rparr>) empty_world example_project
     = Returned (empty_world\<lparr>ops := 1, projects := [example_project]\<rparr>)"
  by (simp add: saveProject_def empty_world_def)

lemma save_fails_first_turn:
  "loop_body (example_env\<lparr>db_fails := (\<lambda>n. n = 2)\<rparr>) 7
     (empty_world\<lparr>ops := 1, projects := [example_project]\<rparr>) first_mr
   = Some (Thrown StoreError
       (empty_world\<lparr>ops := 3, projects := [example_project], newCount := 1,
                     detail_calls := [(7, 3)]\<rparr>))"
  by (simp add: loop_body_def getMergeRequest_def saveMergeRequest_def Let_def example_run
        empty_world_def first_mr_def)

lemma rejecting_fetch:
  "fetchMergeRequests (mr_api rejecting_env projectId) = Some [first_mr, second_mr, third_mr]"
  by (simp add: rejecting_env_def fetchMergeRequests_paged)

lemma rejecting_details:
  "fetchMergeRequestDetails (notes_api rejecting_env projectId iid)
     (approvals_api rejecting_env projectId iid)
   = Some \<lparr>notes_of = [system_note, human_note], approvalEvents = []\<rparr>"
  by (simp add: rejecting_env_def example_details)

lemma rejecting_derived:
  "firstComment rejecting_env [system_note, human_note] = Some t_10_05"
  "approvedAt rejecting_env [] = None"
  by (simp_all add: firstComment_def approvedAt_def system_note_def human_note_def)

lemma rejecting_project:
  "saveProject rejecting_env empty_world example_project
     = Returned (empty_world\<lparr>ops := 1, projects := [example_project]\<rparr>)"
  by (simp add: saveProject_def empty_world_def rejecting_env_def)

lemma rejecting_first_turn:
  "loop_body rejecting_env 7 (empty_world\<lparr>ops := 1, projects := [example_project]\<rparr>) first_mr
   = Some (Returned
       (empty_world\<lparr>ops := 3, projects := [example_project], newCount := 1,
                     detail_calls := [(7, 3)],
                     merge_requests := [mrData 7 first_mr (Some t_10_05) None]\<rparr>))"
  by (simp add: loop_body_def getMergeRequest_def saveMergeRequest_def Let_def
        rejecting_details rejecting_derived)
     (simp add: rejecting_env_def empty_world_def first_mr_def)

text \<open>
  C4 as the code has it, on three merge requests: the first is stored; the write of the
  second, the fifth statement of the run, is rejected; the run ends with that error
  after five statements, with the first row in the table and detail calls for the first
  two merge requests only. The third is never reached.
\<close>

theorem save_failure_aborts_run_witness:
  "fetchMergeRequests (mr_api rejecting_env 7) = Some ([first_mr] @ second_mr # [third_mr])
   \<and> db_fails rejecting_env 4
   \<and> (\<exists>w2. processAndStoreMergeRequests rejecting_env 7 example_project empty_world
               = Some (Thrown StoreError w2)
         \<and> merge_requests w2 = [mrData 7 first_mr (Some t_10_05) None]
         \<and> detail_calls w2 = [(7, 3), (7, 4)]
         \<and> ops w2 = 5)"
proof -
  define w0 where "w0 = empty_world\<lparr>ops := 1, projects := [example_project]\<rparr>"
  define w1 where "w1 = empty_world\<lparr>ops := 3, projects := [example_project], newCount := 1,
                     detail_calls := [(7, 3)],
                     merge_requests := [mrData 7 first_mr (Some t_10_05) None]\<rparr>"
  have fetch: "fetchMergeRequests (mr_api rejecting_env 7)
                 = Some ([first_mr] @ second_mr # [third_mr])"
    by (simp add: rejecting_fetch)
  have sp: "saveProject rejecting_env empty_world example_project = Returned w0"
    unfolding w0_def by (rule rejecting_project)
  have w0': "w0\<lparr>skippedCount := 0, updatedCount := 0, newCount := 0\<rparr> = w0"
    by (simp add: w0_def empty_world_def)
  have turn: "loop_body rejecting_env 7 w0 first_mr = Some (Returned w1)"
    unfolding w0_def w1_def by (rule rejecting_first_turn)
  have pre: "for_loop rejecting_env 7
               (w0\<lparr>skippedCount := 0, updatedCount := 0, newCount := 0\<rparr>) [first_mr]
               = Some (Returned w1)"
    by (simp add: w0' turn)
  have ns: "\<not> skips 7 (merge_requests w1) second_mr"
    by (simp add: skips_def w1_def mrData_def first_mr_def second_mr_def)
  have det: "fetchMergeRequestDetails (notes_api rejecting_env 7 (mr_iid second_mr))
               (approvals_api rejecting_env 7 (mr_iid second_mr))
             = Some \<lparr>notes_of = [system_note, human_note], approvalEvents = []\<rparr>"
    by (rule rejecting_details)
  have four: "db_fails rejecting_env 4" by (simp add: rejecting_env_def)
  have rej: "db_fails rejecting_env (ops w1 + 1)"
    by (simp add: w1_def rejecting_env_def)
  from save_failure_aborts_run [OF fetch sp pre ns det rej]
  obtain w2 where "processAndStoreMergeRequests rejecting_env 7 example_project empty_world
               = Some (Thrown StoreError w2)"
    and "merge_requests w2 = merge_requests w1"
    and "detail_calls w2 = detail_calls w1 @ [(7, mr_iid second_mr)]"
    and "ops w2 = ops w1 + 2"
    by blast
  then have "\<exists>w2. processAndStoreMergeRequests rejecting_env 7 example_project empty_world
               = Some (Thrown StoreError w2)
         \<and> merge_requests w2 = [mrData 7 first_mr (Some t_10_05) None]
         \<and> detail_calls w2 = [(7, 3), (7, 4)]
         \<and> ops w2 = 5"
    by (intro exI [of _ w2]) (simp add: w1_def second_mr_def)
  with fetch four show ?thesis by (intro conjI)
qed

text \<open>
  C4 as stated fails. In the same run the second merge request is never reached: the
  run does not return, the table is still empty when it throws, the only detail call
  was for the first merge request, and just three statements were issued, though no
  later statement would have failed.
\<close>

theorem save_failure_skips_rest_counterexample:
  "fetchMergeRequests (mr_api (example_env\<lparr>db_fails := (\<lambda>n. n = 2)\<rparr>) 7)
     = Some [first_mr, second_mr]
   \<and> returned (processAndStoreMergeRequests (example_env\<lparr>db_fails := (\<lambda>n. n = 2)\<rparr>) 7
        example_project empty_world) = None
   \<and> map_option merge_requests
        (thrown (processAndStoreMergeRequests (example_env\<lparr>db_fails := (\<lambda>n. n = 2)\<rparr>) 7
           example_project empty_world)) = Some []
   \<and> map_option detail_calls
        (thrown (processAndStoreMergeRequests (example_env\<lparr>db_fails := (\<lambda>n. n = 2)\<rparr>) 7
           example_project empty_world)) = Some [(7, 3)]
   \<and> map_option ops
        (thrown (processAndStoreMergeRequests (example_env\<lparr>db_fails := (\<lambda>n. n = 2)\<rparr>) 7
           example_project empty_world)) = Some 3"
proof -
  define e where "e = example_env\<lparr>db_fails := (\<lambda>n. n = 2)\<rparr>"
  define w0 where "w0 = empty_world\<lparr>ops := 1, projects := [example_project]\<rparr>"
  define w2 where "w2 = empty_world\<lparr>ops := 3, projects := [example_project], newCount := 1,
                         detail_calls := [(7, 3)]\<rparr>"
  have fetch: "fetchMergeRequests (mr_api e 7) = Some [first_mr, second_mr]"
    by (simp add: e_def example_fetch)
  have sp: "saveProject e empty_world example_project = Returned w0"
    unfolding e_def w0_def by (rule save_fails_project)
  have w0': "w0\<lparr>skippedCount := 0, updatedCount := 0, newCount := 0\<rparr> = w0"
    by (simp add: w0_def empty_world_def)
  have turn: "loop_body e 7 w0 first_mr = Some (Thrown StoreError w2)"
    unfolding e_def w0_def w2_def by (rule save_fails_first_turn)
  have "processAndStoreMergeRequests e 7 example_project empty_world
          = Some (Thrown StoreError w2)"
    by (simp add: processAndStoreMergeRequests_def fetch sp w0' turn)
  then have "processAndStoreMergeRequests (example_env\<lparr>db_fails := (\<lambda>n. n = 2)\<rparr>) 7
        example_project empty_world
       = Some (Thrown StoreError
           (empty_world\<lparr>ops := 3, projects := [example_project], newCount := 1,
                         detail_calls := [(7, 3)]\<rparr>))"
    unfolding e_def w2_def .
  then show ?thesis
    by (simp add: returned_def thrown_def example_fetch empty_world_def)
qed

text \<open>
  C10 on the example: the table holds merge request 10 as merged, with squad \<^verbatim>\<open>CMS\<close>; the
  \<^verbatim>\<open>SELECT\<close> is rejected. The record is counted as new, its details are fetched, and the
  row found under its key afterwards is the one built from the remote data, without
  squad.
\<close>

theorem failed_lookup_takes_insert_path_witness:
  "find (\<lambda>r. project_id r = 7 \<and> id' r = mr_id merged_mr) (merge_requests merged_world)
     = Some (stored_row\<lparr>state := ''merged'', merged_at := Some t_10_05\<rparr>)
   \<and> getMergeRequest (example_env\<lparr>db_fails := (\<lambda>n. n = 0)\<rparr>) merged_world 7 (mr_id merged_mr)
       = (None, merged_world\<lparr>ops := ops merged_world + 1\<rparr>)
   \<and> (\<exists>w'. loop_body (example_env\<lparr>db_fails := (\<lambda>n. n = 0)\<rparr>) 7 merged_world merged_mr
               = Some (Returned w')
         \<and> newCount w' = newCount merged_world + 1
         \<and> detail_calls w' = detail_calls merged_world @ [(7, mr_iid merged_mr)]
         \<and> find (\<lambda>r. project_id r = 7 \<and> id' r = mr_id merged_mr) (merge_requests w')
             = Some (mrData 7 merged_mr (Some t_10_05) None))
   \<and> squad (mrData 7 merged_mr (Some t_10_05) None) = None
   \<and> squad (stored_row\<lparr>state := ''merged'', merged_at := Some t_10_05\<rparr>) = Some ''CMS''"
proof -
  define e where "e = example_env\<lparr>db_fails := (\<lambda>n. n = 0)\<rparr>"
  have lookup: "db_fails e (ops merged_world)"
    by (simp add: e_def merged_world_def empty_world_def)
  have save: "\<not> db_fails e (ops merged_world + 1)"
    by (simp add: e_def)
  have det: "fetchMergeRequestDetails (notes_api e 7 (mr_iid merged_mr))
               (approvals_api e 7 (mr_iid merged_mr))
             = Some \<lparr>notes_of = [system_note, human_note], approvalEvents = []\<rparr>"
    by (simp add: e_def example_details)
  have fc: "firstComment e (notes_of \<lparr>notes_of = [system_note, human_note],
                approvalEvents = ([] :: approval_event list)\<rparr>) = Some t_10_05"
    by (simp add: e_def example_firstComment)
  have ap: "approvedAt e (approvalEvents \<lparr>notes_of = [system_note, human_note],
                approvalEvents = ([] :: approval_event list)\<rparr>) = None"
    by (simp add: e_def example_approvedAt)
  have f: "find (\<lambda>r. project_id r = 7 \<and> id' r = mr_id merged_mr) (merge_requests merged_world)
     = Some (stored_row\<lparr>state := ''merged'', merged_at := Some t_10_05\<rparr>)"
    using merged_find by (simp add: merged_mr_def first_mr_def)
  have sq: "squad (mrData 7 merged_mr (Some t_10_05) None) = None"
     "squad (stored_row\<lparr>state := ''merged'', merged_at := Some t_10_05\<rparr>) = Some ''CMS''"
    by (simp_all add: mrData_def stored_row_def)
  note inst = failed_lookup_takes_insert_path [OF lookup det save, unfolded fc ap]
  from inst have a: "getMergeRequest e merged_world 7 (mr_id merged_mr)
       = (None, merged_world\<lparr>ops := ops merged_world + 1\<rparr>)"
    by (rule conjunct1)
  from inst have b: "\<exists>w'. loop_body e 7 merged_world merged_mr = Some (Returned w')
         \<and> newCount w' = newCount merged_world + 1
         \<and> detail_calls w' = detail_calls merged_world @ [(7, mr_iid merged_mr)]
         \<and> find (\<lambda>r. project_id r = 7 \<and> id' r = mr_id merged_mr) (merge_requests w')
             = Some (mrData 7 merged_mr (Some t_10_05) None)"
    by blast
  from f a b sq show ?thesis unfolding e_def by (intro conjI)
qed

section \<open>The aggregation queries\<close>

subsection \<open>Averages\<close>

lemma foldl_avg_step:
  "foldl avg_step (s, n) xs
     = (s + sum_list (List.map_filter id xs), n + length (List.map_filter id xs))"
proof (induction xs arbitrary: s n)
  case Nil
  then show ?case by simp
next
  case (Cons x xs)
  then show ?case by (cases x) simp_all
qed

lemma AVG_mean:
  "AVG xs = (let ys = List.map_filter id xs in
             if ys = [] then None else Some (sum_list ys / real (length ys)))"
  by (simp add: AVG_def foldl_avg_step Let_def)

lemma deltas_of_parsed:
  assumes "\<forall>r\<in>set grp. strftime_s e (created_at r) \<noteq> None
             \<and> (\<forall>t. col r = Some t \<longrightarrow> strftime_s e t \<noteq> None)"
  shows "List.map_filter id (map (\<lambda>r. delta_minutes e r (col r)) grp)
       = map (\<lambda>r. real_of_int (the (strftime_s e (the (col r)))
                                  - the (strftime_s e (created_at r))) / 60)
           (filter (\<lambda>r. col r \<noteq> None) grp)"
  using assms
proof (induction grp)
  case Nil
  then show ?case by simp
next
  case (Cons r grp)
  then show ?case
    by (cases "col r") (auto simp: delta_minutes_def minutes_between_def)
qed

lemma AVG_delta_mean:
  assumes "\<forall>r\<in>set grp. strftime_s e (created_at r) \<noteq> None
             \<and> (\<forall>t. col r = Some t \<longrightarrow> strftime_s e t \<noteq> None)"
  shows "AVG (map (\<lambda>r. delta_minutes e r (col r)) grp) = mean_minutes e col grp"
  by (simp add: AVG_mean deltas_of_parsed [OF assms] mean_minutes_def Let_def)

lemma row_squad_stats_group: "row_squad (stats_group e sel g) = g"
  by (simp add: stats_group_def Let_def)

lemma set_map_filter_squad:
  "set (List.map_filter squad sel) = {g. \<exists>r\<in>set sel. squad r = Some g}"
  by (auto simp: List.map_filter_def intro: rev_image_eqI)

text \<open>
  C8. When the \<^verbatim>\<open>SELECT\<close> is not rejected and the stored timestamps parse, the result has
  exactly one row for every squad that has a row passing the \<^verbatim>\<open>WHERE\<close> clause, and no
  other row. Each row counts the rows of its squad that pass the clause and carries, for
  each of the three derived timestamps, the mean over those of them that have that
  timestamp: seconds from \<^verbatim>\<open>created_at\<close>, divided by 60, not rounded (computed in exact
  arithmetic here). Rows without the timestamp count neither in the sum nor in the
  divisor; when no row has it the average is null.
\<close>

theorem stats_averages_exclude_null:
  assumes ok: "\<not> db_fails e (ops w)"
    and parse: "\<forall>r\<in>set (merge_requests w). strftime_s e (created_at r) \<noteq> None
        \<and> (\<forall>t. first_comment_at r = Some t \<or> approved_at r = Some t \<or> merged_at r = Some t
               \<longrightarrow> strftime_s e t \<noteq> None)"
  shows "\<exists>rows. getMergeRequestStats e w projectId startDate endDate = Inr rows
     \<and> distinct (map row_squad rows)
     \<and> set (map row_squad rows)
         = {g. \<exists>r\<in>set (merge_requests w).
                 stats_where projectId startDate endDate r \<and> squad r = Some g}
     \<and> (\<forall>row\<in>set rows.
          total_mrs row
            = length (filter (\<lambda>r. stats_where projectId startDate endDate r
                             \<and> squad r = Some (row_squad row)) (merge_requests w))
        \<and> avg_time_to_first_comment row
            = mean_minutes e first_comment_at
                (filter (\<lambda>r. stats_where projectId startDate endDate r
                             \<and> squad r = Some (row_squad row)) (merge_requests w))
        \<and> avg_time_to_approval row
            = mean_minutes e approved_at
                (filter (\<lambda>r. stats_where projectId startDate endDate r
                             \<and> squad r = Some (row_squad row)) (merge_requests w))
        \<and> avg_time_to_merge row
            = mean_minutes e merged_at
                (filter (\<lambda>r. stats_where projectId startDate endDate r
                             \<and> squad r = Some (row_squad row)) (merge_requests w)))"
proof -
  define sel where "sel = filter (stats_where projectId startDate endDate) (merge_requests w)"
  define rows where "rows = map (stats_group e sel) (remdups (List.map_filter squad sel))"
  have r: "getMergeRequestStats e w projectId startDate endDate = Inr rows"
    using ok by (simp add: getMergeRequestStats_def sel_def rows_def Let_def)
  have squads: "map row_squad rows = remdups (List.map_filter squad sel)"
    by (simp add: rows_def comp_def row_squad_stats_group)
  have d: "distinct (map row_squad rows)"
    by (simp add: squads)
  have all: "set (map row_squad rows)
         = {g. \<exists>r\<in>set (merge_requests w).
                 stats_where projectId startDate endDate r \<and> squad r = Some g}"
    unfolding squads by (auto simp: set_map_filter_squad sel_def)
  have each: "total_mrs row = length grp
        \<and> avg_time_to_first_comment row = mean_minutes e first_comment_at grp
        \<and> avg_time_to_approval row = mean_minutes e approved_at grp
        \<and> avg_time_to_merge row = mean_minutes e merged_at grp"
    if "row \<in> set rows"
      and grp: "grp = filter (\<lambda>r. stats_where projectId startDate endDate r
                             \<and> squad r = Some (row_squad row)) (merge_requests w)"
    for row grp
  proof -
    from that(1) obtain g where row: "row = stats_group e sel g"
      by (auto simp: rows_def)
    have g: "row_squad row = g" by (simp add: row row_squad_stats_group)
    have grp': "filter (\<lambda>r. squad r = Some g) sel = grp"
      by (simp add: grp g sel_def)
    have sub: "set grp \<subseteq> set (merge_requests w)" by (auto simp: grp)
    have p1: "\<forall>r\<in>set grp. strftime_s e (created_at r) \<noteq> None
             \<and> (\<forall>t. first_comment_at r = Some t \<longrightarrow> strftime_s e t \<noteq> None)"
      and p2: "\<forall>r\<in>set grp. strftime_s e (created_at r) \<noteq> None
             \<and> (\<forall>t. approved_at r = Some t \<longrightarrow> strftime_s e t \<noteq> None)"
      and p3: "\<forall>r\<in>set grp. strftime_s e (created_at r) \<noteq> None
             \<and> (\<forall>t. merged_at r = Some t \<longrightarrow> strftime_s e t \<noteq> None)"
      using parse sub by blast+
    show ?thesis
      by (simp add: row stats_group_def Let_def grp'
            AVG_delta_mean [OF p1] AVG_delta_mean [OF p2] AVG_delta_mean [OF p3])
  qed
  show ?thesis
    using r d all each by blast
qed

lemma example_seconds:
  "strftime_s example_env t_10_00 = Some 1746007200"
  "strftime_s example_env t_10_10 = Some 1746007800"
  "strftime_s example_env t_10_30 = Some 1746009000"
  by (simp_all add: example_env_def example_strftime_def)

lemma stats_world_rows:
  "merge_requests stats_world
     = [stored_row\<lparr>id' := 20, first_comment_at := Some t_10_10\<rparr>,
        stored_row\<lparr>id' := 21\<rparr>,
        stored_row\<lparr>id' := 22, first_comment_at := Some t_10_30\<rparr>]"
  by (simp add: stats_world_def empty_world_def)

lemma two_squads_rows:
  "merge_requests two_squads_world
     = [stored_row\<lparr>id' := 20, first_comment_at := Some t_10_10\<rparr>,
        stored_row\<lparr>id' := 21\<rparr>,
        stored_row\<lparr>id' := 22, first_comment_at := Some t_10_30\<rparr>,
        stored_row\<lparr>id' := 23, first_comment_at := Some t_10_05, squad := Some ''WEB''\<rparr>]"
  by (simp add: two_squads_world_def stats_world_rows empty_world_def)

lemma example_seconds_10_05: "strftime_s example_env t_10_05 = Some 1746007500"
  by (simp add: example_env_def example_strftime_def)

text \<open>
  C8 on the example of the specification, with a second squad beside it: first-comment
  delays of 10 minutes, none, and 30 minutes in one squad average to 20, and the single
  delay of 5 minutes in the other squad gives 5; both squads have their row.
\<close>

theorem stats_averages_exclude_null_witness:
  "map (\<lambda>r. (squad r, delta_minutes example_env r (first_comment_at r)))
     (merge_requests two_squads_world)
     = [(Some ''CMS'', Some 10), (Some ''CMS'', None), (Some ''CMS'', Some 30),
        (Some ''WEB'', Some 5)]
   \<and> (\<exists>rows. getMergeRequestStats example_env two_squads_world 7 None None = Inr rows
         \<and> map row_squad rows = [''CMS'', ''WEB'']
         \<and> map total_mrs rows = [3, 1]
         \<and> map avg_time_to_first_comment rows = [Some 20, Some 5]
         \<and> map avg_time_to_approval rows = [None, None])"
proof -
  let ?w = two_squads_world
  have ok: "\<not> db_fails example_env (ops ?w)" by (simp add: example_env_def)
  have parse: "\<forall>r\<in>set (merge_requests ?w).
        strftime_s example_env (created_at r) \<noteq> None
        \<and> (\<forall>t. first_comment_at r = Some t \<or> approved_at r = Some t \<or> merged_at r = Some t
               \<longrightarrow> strftime_s example_env t \<noteq> None)"
    by (simp add: two_squads_rows stored_row_def example_seconds example_seconds_10_05)
  from stats_averages_exclude_null [OF ok parse, of 7 None None]
  obtain rows where r: "getMergeRequestStats example_env ?w 7 None None = Inr rows"
    and avg: "\<forall>row\<in>set rows.
          total_mrs row
            = length (filter (\<lambda>r. stats_where 7 None None r
                             \<and> squad r = Some (row_squad row)) (merge_requests ?w))
        \<and> avg_time_to_first_comment row
            = mean_minutes example_env first_comment_at
                (filter (\<lambda>r. stats_where 7 None None r
                             \<and> squad r = Some (row_squad row)) (merge_requests ?w))
        \<and> avg_time_to_approval row
            = mean_minutes example_env approved_at
                (filter (\<lambda>r. stats_where 7 None None r
                             \<and> squad r = Some (row_squad row)) (merge_requests ?w))"
    by blast
  have sel: "filter (stats_where 7 None None) (merge_requests ?w) = merge_requests ?w"
    by (simp add: two_squads_rows stored_row_def stats_where_def date_filter_def)
  have groups: "remdups (List.map_filter squad (merge_requests ?w)) = [''CMS'', ''WEB'']"
    by (simp add: two_squads_rows stored_row_def List.map_filter_simps)
  from r have rows: "rows = [stats_group example_env (merge_requests ?w) ''CMS'',
                             stats_group example_env (merge_requests ?w) ''WEB'']"
    using ok by (simp add: getMergeRequestStats_def sel groups Let_def)
  have cms: "filter (\<lambda>r. stats_where 7 None None r \<and> squad r = Some ''CMS'') (merge_requests ?w)
               = merge_requests stats_world"
    by (simp add: two_squads_rows stats_world_rows stored_row_def stats_where_def date_filter_def)
  have web: "filter (\<lambda>r. stats_where 7 None None r \<and> squad r = Some ''WEB'') (merge_requests ?w)
               = [stored_row\<lparr>id' := 23, first_comment_at := Some t_10_05, squad := Some ''WEB''\<rparr>]"
    by (simp add: two_squads_rows stored_row_def stats_where_def date_filter_def)
  have m: "mean_minutes example_env first_comment_at (merge_requests stats_world) = Some 20"
    "mean_minutes example_env approved_at (merge_requests stats_world) = None"
    "mean_minutes example_env first_comment_at
       [stored_row\<lparr>id' := 23, first_comment_at := Some t_10_05, squad := Some ''WEB''\<rparr>] = Some 5"
    "mean_minutes example_env approved_at
       [stored_row\<lparr>id' := 23, first_comment_at := Some t_10_05, squad := Some ''WEB''\<rparr>] = None"
    by (simp_all add: mean_minutes_def stats_world_rows stored_row_def example_seconds
          example_seconds_10_05)
  have len: "length (merge_requests stats_world) = 3"
    by (simp add: stats_world_rows)
  from avg have "map total_mrs rows = [3, 1]"
    and "map avg_time_to_first_comment rows = [Some 20, Some 5]"
    and "map avg_time_to_approval rows = [None, None]"
    by (simp_all add: rows row_squad_stats_group cms web m len)
  moreover have "map row_squad rows = [''CMS'', ''WEB'']"
    by (simp add: rows row_squad_stats_group)
  moreover have "map (\<lambda>r. (squad r, delta_minutes example_env r (first_comment_at r)))
     (merge_requests two_squads_world)
     = [(Some ''CMS'', Some 10), (Some ''CMS'', None), (Some ''CMS'', Some 30),
        (Some ''WEB'', Some 5)]"
    by (simp add: two_squads_rows stored_row_def delta_minutes_def minutes_between_def
        example_seconds example_seconds_10_05)
  ultimately show ?thesis using r by simp
qed

subsection \<open>The date bounds\<close>

text \<open>
  Under the byte order a text is at most each of its extensions, and no proper
  extension of a text is at most that text. So the lower bound admits every timestamp of
  its own day, the upper bound rejects every timestamp of its own day that has a time
  part, and a bound that is absent or empty rejects nothing.
\<close>

lemma text_le_refl_prefix: "text_le d (d @ cs)"
  by (induction d) simp_all

lemma text_le_longer: "\<not> text_le (d @ c # cs) d"
  by (induction d) simp_all

lemma start_bound_admits_its_day:
  "created_at r = d @ cs \<Longrightarrow> date_filter (Some d) None r"
  by (simp add: date_filter_def text_le_refl_prefix)

lemma end_bound_rejects_its_day:
  "d \<noteq> [] \<Longrightarrow> created_at r = d @ c # cs \<Longrightarrow> \<not> date_filter startDate (Some d) r"
  by (simp add: date_filter_def text_le_longer)

lemma absent_bounds_admit_all:
  "date_filter None None r" "date_filter (Some []) (Some []) r"
  by (simp_all add: date_filter_def)

text \<open>
  C9 does not hold of the code on the side of the end date. The three rows of the
  example were created on 2025-04-30 at 10:00. With the end date \<^verbatim>\<open>2025-04-30\<close> both
  queries return no row at all; with the same day as start date they count all three
  rows, and the two whose first comment came more than 5 minutes late.
\<close>

theorem end_date_excludes_its_own_day:
  "map created_at (merge_requests stats_world) = [t_10_00, t_10_00, t_10_00]
   \<and> getMergeRequestStats example_env stats_world 7 None (Some ''2025-04-30'') = Inr []
   \<and> countMrsWithLateFirstComment example_env stats_world 7 5 None (Some ''2025-04-30'') = Inr []
   \<and> map_sum id (map total_mrs)
        (getMergeRequestStats example_env stats_world 7 (Some ''2025-04-30'') None) = Inr [3]
   \<and> map_sum id (map late_count)
        (countMrsWithLateFirstComment example_env stats_world 7 5 (Some ''2025-04-30'') None)
       = Inr [2]"
proof -
  have ok: "\<not> db_fails example_env (ops stats_world)" by (simp add: example_env_def)
  have le: "text_le ''2025-04-30'' t_10_00" "\<not> text_le t_10_00 ''2025-04-30''"
    by simp_all
  have c: "map created_at (merge_requests stats_world) = [t_10_00, t_10_00, t_10_00]"
    by (simp add: stats_world_rows stored_row_def)
  have a: "getMergeRequestStats example_env stats_world 7 None (Some ''2025-04-30'') = Inr []"
    using ok le
    by (simp add: getMergeRequestStats_def stats_world_rows stored_row_def stats_where_def
          date_filter_def List.map_filter_simps)
  have b: "countMrsWithLateFirstComment example_env stats_world 7 5 None (Some ''2025-04-30'')
             = Inr []"
    using ok le
    by (simp add: countMrsWithLateFirstComment_def stats_world_rows stored_row_def late_where_def
          date_filter_def List.map_filter_simps)
  have d: "map_sum id (map total_mrs)
        (getMergeRequestStats example_env stats_world 7 (Some ''2025-04-30'') None) = Inr [3]"
    using ok le
    by (simp add: getMergeRequestStats_def stats_world_rows stored_row_def stats_where_def
          date_filter_def List.map_filter_simps stats_group_def)
  have f: "map_sum id (map late_count)
        (countMrsWithLateFirstComment example_env stats_world 7 5 (Some ''2025-04-30'') None)
       = Inr [2]"
    using ok le
    by (simp add: countMrsWithLateFirstComment_def stats_world_rows stored_row_def late_where_def
          date_filter_def List.map_filter_simps delta_minutes_def minutes_between_def
          example_seconds)
  from c a b d f show ?thesis by (intro conjI)
qed

end
